theory Spec2Isabelle
  imports Main "HOL-Library.Word" "HOL-Library.Sublist"
begin

section \<open>JavaScript strings\<close>

text \<open>
  A JavaScript string is a sequence of UTF-16 code units; \<open>length\<close>, \<open>slice\<close>, \<open>trim\<close> and
  regular expressions without the \<open>u\<close> flag all work on code units. The ASCII literals of
  the program are embedded by \<open>lit\<close>.
\<close>

type_synonym cu = "16 word"
type_synonym jsstring = "cu list"

definition cu_of_char :: "char \<Rightarrow> cu" where
  "cu_of_char c = word_of_nat (of_char c)"

definition lit :: "string \<Rightarrow> jsstring" where
  "lit s = map cu_of_char s"

text \<open>Truthiness of a string value: every string but the empty one is truthy.\<close>

definition truthy :: "jsstring \<Rightarrow> bool" where
  "truthy s = (s \<noteq> [])"

text \<open>
  The code units matched by \<open>\s\<close> and stripped by \<open>trim\<close>: the WhiteSpace and
  LineTerminator code points of ECMAScript.
\<close>

definition isLineTerminator :: "cu \<Rightarrow> bool" where
  "isLineTerminator c = (c = 0x000A \<or> c = 0x000D \<or> c = 0x2028 \<or> c = 0x2029)"

definition isWhiteSpace :: "cu \<Rightarrow> bool" where
  "isWhiteSpace c =
     (c = 0x0009 \<or> c = 0x000B \<or> c = 0x000C \<or> c = 0x0020 \<or> c = 0x00A0 \<or> c = 0x1680
      \<or> (0x2000 \<le> c \<and> c \<le> 0x200A) \<or> c = 0x202F \<or> c = 0x205F \<or> c = 0x3000
      \<or> c = 0xFEFF \<or> isLineTerminator c)"

definition trim :: "jsstring \<Rightarrow> jsstring" where
  "trim s = rev (dropWhile isWhiteSpace (rev (dropWhile isWhiteSpace s)))"

definition isDigit :: "cu \<Rightarrow> bool" where
  "isDigit c = (0x30 \<le> c \<and> c \<le> 0x39)"

definition isLower :: "cu \<Rightarrow> bool" where
  "isLower c = (0x61 \<le> c \<and> c \<le> 0x7A)"

definition isUpper :: "cu \<Rightarrow> bool" where
  "isUpper c = (0x41 \<le> c \<and> c \<le> 0x5A)"

definition AT :: cu where
  "AT = 0x40"

definition DOT :: cu where
  "DOT = 0x2E"

section \<open>Regular expressions\<close>

text \<open>
  The patterns of the program use character classes, concatenation, \<open>+\<close> and \<open>*\<close>, the
  anchors \<open>^\<close> and \<open>$\<close> around a whole pattern, and a lookahead as a whole pattern. A pattern
  body is a value of \<open>rx\<close>; \<open>matches\<close> decides whether a whole string matches it, by
  derivatives.
\<close>

datatype rx =
    Never
  | Empty
  | Class "cu \<Rightarrow> bool"
  | Alt rx rx
  | Cat rx rx
  | Star rx

text \<open>\<open>r+\<close> is \<open>r\<close> followed by \<open>r*\<close>.\<close>

definition OneOrMore :: "rx \<Rightarrow> rx" where
  "OneOrMore r = Cat r (Star r)"

fun nullable :: "rx \<Rightarrow> bool" where
  "nullable Never = False"
| "nullable Empty = True"
| "nullable (Class P) = False"
| "nullable (Alt r s) = (nullable r \<or> nullable s)"
| "nullable (Cat r s) = (nullable r \<and> nullable s)"
| "nullable (Star r) = True"

fun deriv :: "cu \<Rightarrow> rx \<Rightarrow> rx" where
  "deriv c Never = Never"
| "deriv c Empty = Never"
| "deriv c (Class P) = (if P c then Empty else Never)"
| "deriv c (Alt r s) = Alt (deriv c r) (deriv c s)"
| "deriv c (Cat r s) =
     (if nullable r then Alt (Cat (deriv c r) s) (deriv c s) else Cat (deriv c r) s)"
| "deriv c (Star r) = Cat (deriv c r) (Star r)"

fun matches :: "rx \<Rightarrow> jsstring \<Rightarrow> bool" where
  "matches r [] = nullable r"
| "matches r (c # cs) = matches (deriv c r) cs"

text \<open>\<open>/^r$/.test(s)\<close>: the whole string matches.\<close>

definition test_anchored :: "rx \<Rightarrow> jsstring \<Rightarrow> bool" where
  "test_anchored r s = matches r s"

text \<open>
  \<open>/(?=r)/.test(s)\<close>: at some position of \<open>s\<close>, the pattern \<open>r\<close> matches a prefix of what
  follows.
\<close>

definition AnyChar :: rx where
  "AnyChar = Class (\<lambda>c. True)"

definition test_lookahead :: "rx \<Rightarrow> jsstring \<Rightarrow> bool" where
  "test_lookahead r s = list_ex (matches (Cat r (Star AnyChar))) (suffixes s)"

text \<open>The pattern \<open>.\<close> matches every code unit but a line terminator.\<close>

definition Dot :: rx where
  "Dot = Class (\<lambda>c. \<not> isLineTerminator c)"

text \<open>The words a pattern denotes, to reason about \<open>matches\<close>.\<close>

inductive_set star :: "jsstring set \<Rightarrow> jsstring set" for L :: "jsstring set" where
  star_Nil: "[] \<in> star L"
| star_app: "u \<in> L \<Longrightarrow> v \<in> star L \<Longrightarrow> u @ v \<in> star L"

fun lang :: "rx \<Rightarrow> jsstring set" where
  "lang Never = {}"
| "lang Empty = {[]}"
| "lang (Class P) = {[c] | c. P c}"
| "lang (Alt r s) = lang r \<union> lang s"
| "lang (Cat r s) = {u @ v | u v. u \<in> lang r \<and> v \<in> lang s}"
| "lang (Star r) = star (lang r)"

section \<open>Email validation\<close>

text \<open>
  \<open>const EMAIL_REGEX = /^[^\s@]+@[^\s@]+\.[^\s@]+$/\<close> of the forgot-password screen, and the
  same pattern as \<open>emailRegex\<close> inside \<open>validateEmail\<close> of the register screen.
\<close>

definition notSpaceAt :: "cu \<Rightarrow> bool" where
  "notSpaceAt c = (\<not> isWhiteSpace c \<and> c \<noteq> AT)"

definition EMAIL_REGEX :: rx where
  "EMAIL_REGEX =
     Cat (OneOrMore (Class notSpaceAt))
       (Cat (Class (\<lambda>c. c = AT))
         (Cat (OneOrMore (Class notSpaceAt))
           (Cat (Class (\<lambda>c. c = DOT)) (OneOrMore (Class notSpaceAt)))))"

definition validateEmail_reg :: "jsstring \<Rightarrow> bool" where
  "validateEmail_reg email = test_anchored EMAIL_REGEX email"

definition validateEmail_fp :: "jsstring \<Rightarrow> jsstring" where
  "validateEmail_fp emailValue =
     (if \<not> truthy (trim emailValue) then lit ''Email is required''
      else if \<not> test_anchored EMAIL_REGEX emailValue then lit ''Please enter a valid email address''
      else lit [])"

section \<open>Password and one-time-code validation\<close>

text \<open>The result object \<open>{ isValid, message? }\<close> of the register screen's \<open>validatePassword\<close>.\<close>

record validation =
  isValid :: bool
  message :: "jsstring option"

text \<open>
  The three unanchored patterns \<open>/(?=.*[a-z])/\<close>, \<open>/(?=.*[A-Z])/\<close> and \<open>/(?=.*\d)/\<close> are
  lookaheads over \<open>.*\<close> followed by one class; \<open>\d\<close> is \<open>[0-9]\<close>.
\<close>

definition validatePassword :: "jsstring \<Rightarrow> validation" where
  "validatePassword password =
     (if length password < 8 then
        \<lparr>isValid = False, message = Some (lit ''Password must be at least 8 characters long'')\<rparr>
      else if \<not> test_lookahead (Cat (Star Dot) (Class isLower)) password then
        \<lparr>isValid = False,
         message = Some (lit ''Password must contain at least one lowercase letter'')\<rparr>
      else if \<not> test_lookahead (Cat (Star Dot) (Class isUpper)) password then
        \<lparr>isValid = False,
         message = Some (lit ''Password must contain at least one uppercase letter'')\<rparr>
      else if \<not> test_lookahead (Cat (Star Dot) (Class isDigit)) password then
        \<lparr>isValid = False, message = Some (lit ''Password must contain at least one number'')\<rparr>
      else \<lparr>isValid = True, message = None\<rparr>)"

definition PASSWORD_MIN_LENGTH :: nat where
  "PASSWORD_MIN_LENGTH = 6"

text \<open>
  \<open>validateOTP\<close>, \<open>validateNewPassword\<close> and \<open>validateConfirmPassword\<close> of the
  forgot-password screen return an error message, or the empty string. The template
  literal of \<open>validateNewPassword\<close> is written with the constant 6 filled in.
\<close>

definition validateOTP :: "jsstring \<Rightarrow> jsstring" where
  "validateOTP otpValue =
     (if \<not> truthy (trim otpValue) then lit ''OTP is required''
      else if length otpValue \<noteq> 6 then lit ''OTP must be 6 digits''
      else if \<not> test_anchored (OneOrMore (Class isDigit)) otpValue then
        lit ''OTP must contain only numbers''
      else lit [])"

definition validateNewPassword :: "jsstring \<Rightarrow> jsstring" where
  "validateNewPassword passwordValue =
     (if \<not> truthy passwordValue then lit ''Password is required''
      else if length passwordValue < PASSWORD_MIN_LENGTH then
        lit ''Password must be at least 6 characters''
      else lit [])"

text \<open>\<open>validateConfirmPassword\<close> reads the state variable \<open>newPassword\<close>, its second argument here.\<close>

definition validateConfirmPassword :: "jsstring \<Rightarrow> jsstring \<Rightarrow> jsstring" where
  "validateConfirmPassword confirmValue newPassword =
     (if \<not> truthy confirmValue then lit ''Please confirm your password''
      else if confirmValue \<noteq> newPassword then lit ''Passwords do not match''
      else lit [])"

section \<open>Effects shared by the screens\<close>

datatype route = Loading | Login | Home | Register | ForgotPassword

datatype direction = forward | backward

text \<open>A thrown value: an \<open>Error\<close> object with its message, or any other value.\<close>

datatype exn = Error jsstring | NonError

text \<open>
  What a handler does to the outside, in order: alerts, console output, the animation of a
  step change, calls to the keychain and to AsyncStorage, navigation, and the callbacks
  passed as props.
\<close>

datatype event =
    Alert jsstring jsstring
  | ConsoleError jsstring
  | ConsoleLog jsstring
  | Animate direction
  | KeychainSet jsstring jsstring
  | KeychainReset
  | KeychainGet
  | StorageSet jsstring jsstring
  | StorageGet jsstring
  | NavReplace route
  | NavNavigate route
  | NavGoBack
  | OnLoginSuccess
  | OnRegisterSuccess

text \<open>
  \<open>await new Promise(resolve => setTimeout(resolve, ms))\<close>: the executor only ever calls
  \<open>resolve\<close>, so the awaited promise is fulfilled.
\<close>

definition timer_promise :: "nat \<Rightarrow> exn + unit" where
  "timer_promise ms = Inr ()"

text \<open>
  The device: the keychain entry, the AsyncStorage table, and for each call whether the
  library rejects it (and with what). A rejected call leaves the device as it was.
\<close>

record world =
  keychain :: "(jsstring \<times> jsstring) option"
  asyncStorage :: "jsstring \<rightharpoonup> jsstring"
  rejects :: "event \<Rightarrow> exn option"

text \<open>An awaited call: the events so far, the device after it, and the exception if it threw.\<close>

type_synonym outcome = "event list \<times> world \<times> exn option"

definition Keychain_setGenericPassword :: "jsstring \<Rightarrow> jsstring \<Rightarrow> world \<Rightarrow> outcome" where
  "Keychain_setGenericPassword u p w =
     (case rejects w (KeychainSet u p) of
        Some x \<Rightarrow> ([KeychainSet u p], w, Some x)
      | None \<Rightarrow> ([KeychainSet u p], w\<lparr>keychain := Some (u, p)\<rparr>, None))"

definition Keychain_resetGenericPassword :: "world \<Rightarrow> outcome" where
  "Keychain_resetGenericPassword w =
     (case rejects w KeychainReset of
        Some x \<Rightarrow> ([KeychainReset], w, Some x)
      | None \<Rightarrow> ([KeychainReset], w\<lparr>keychain := None\<rparr>, None))"

definition AsyncStorage_setItem :: "jsstring \<Rightarrow> jsstring \<Rightarrow> world \<Rightarrow> outcome" where
  "AsyncStorage_setItem k v w =
     (case rejects w (StorageSet k v) of
        Some x \<Rightarrow> ([StorageSet k v], w, Some x)
      | None \<Rightarrow> ([StorageSet k v], w\<lparr>asyncStorage := (asyncStorage w)(k \<mapsto> v)\<rparr>, None))"

definition Keychain_getGenericPassword :: "world \<Rightarrow> exn + (jsstring \<times> jsstring) option" where
  "Keychain_getGenericPassword w =
     (case rejects w KeychainGet of Some x \<Rightarrow> Inl x | None \<Rightarrow> Inr (keychain w))"

definition AsyncStorage_getItem :: "jsstring \<Rightarrow> world \<Rightarrow> exn + jsstring option" where
  "AsyncStorage_getItem k w =
     (case rejects w (StorageGet k) of Some x \<Rightarrow> Inl x | None \<Rightarrow> Inr (asyncStorage w k))"

text \<open>Two awaited calls in sequence: the second runs only if the first did not throw.\<close>

definition and_then :: "(world \<Rightarrow> outcome) \<Rightarrow> (world \<Rightarrow> outcome) \<Rightarrow> world \<Rightarrow> outcome" where
  "and_then a b w =
     (case a w of
        (e1, w1, Some x) \<Rightarrow> (e1, w1, Some x)
      | (e1, w1, None) \<Rightarrow> (case b w1 of (e2, w2, r) \<Rightarrow> (e1 @ e2, w2, r)))"

section \<open>The login screen\<close>

text \<open>
  The props \<open>onLoginSuccess?\<close> and \<open>navigation?\<close> are optional; the code only tests whether
  each is present. The state is the four \<open>useState\<close> variables.
\<close>

record login_props =
  lg_navigation :: bool
  lg_onLoginSuccess :: bool

record login_state =
  lg_username :: jsstring
  lg_password :: jsstring
  lg_rememberMe :: bool
  lg_showPassword :: bool

definition initial_login_state :: login_state where
  "initial_login_state =
     \<lparr>lg_username = [], lg_password = [], lg_rememberMe = False, lg_showPassword = False\<rparr>"

text \<open>The body of the \<open>try\<close> block of \<open>handleLogin\<close>.\<close>

definition handleLogin_try :: "login_props \<Rightarrow> login_state \<Rightarrow> world \<Rightarrow> outcome" where
  "handleLogin_try pr st w =
     (if truthy (lg_username st) \<and> truthy (lg_password st) then
        and_then
          (if lg_rememberMe st then
             and_then (Keychain_setGenericPassword (lg_username st) (lg_password st))
               (AsyncStorage_setItem (lit ''rememberMe'') (lit ''true''))
           else
             and_then Keychain_resetGenericPassword
               (AsyncStorage_setItem (lit ''rememberMe'') (lit ''false'')))
          (\<lambda>w'. (if lg_navigation pr then [NavReplace Home]
                 else if lg_onLoginSuccess pr then [OnLoginSuccess]
                 else [], w', None))
          w
      else ([Alert (lit ''Error'') (lit ''Invalid credentials'')], w, None))"

definition handleLogin :: "login_props \<Rightarrow> login_state \<Rightarrow> world \<Rightarrow> event list \<times> world" where
  "handleLogin pr st w =
     (if \<not> truthy (lg_username st) \<or> \<not> truthy (lg_password st) then
        ([Alert (lit ''Error'') (lit ''Please fill in all fields'')], w)
      else
        (case handleLogin_try pr st w of
           (evs, w', None) \<Rightarrow> (evs, w')
         | (evs, w', Some error) \<Rightarrow>
             (evs @ [Alert (lit ''Error'') (lit ''Login failed. Please try again.''),
                     ConsoleError (lit ''Login error:'')], w')))"

text \<open>The effect run on mount: \<open>loadStoredCredentials\<close>.\<close>

definition loadStoredCredentials :: "login_state \<Rightarrow> world \<Rightarrow> event list \<times> login_state" where
  "loadStoredCredentials st w =
     (case AsyncStorage_getItem (lit ''rememberMe'') w of
        Inl error \<Rightarrow> ([ConsoleError (lit ''Failed to load saved credentials:'')], st)
      | Inr remember \<Rightarrow>
          if remember = Some (lit ''true'') then
            (case Keychain_getGenericPassword w of
               Inl error \<Rightarrow> ([ConsoleError (lit ''Failed to load saved credentials:'')], st)
             | Inr credentials \<Rightarrow>
                 (case credentials of
                    Some (u, p) \<Rightarrow>
                      ([], st\<lparr>lg_username := u, lg_password := p, lg_rememberMe := True\<rparr>)
                  | None \<Rightarrow> ([], st)))
          else ([], st))"

text \<open>The events of a trace that write persistent state.\<close>

fun is_persistence :: "event \<Rightarrow> bool" where
  "is_persistence (KeychainSet u p) = True"
| "is_persistence KeychainReset = True"
| "is_persistence (StorageSet k v) = True"
| "is_persistence e = False"

fun is_navigation :: "event \<Rightarrow> bool" where
  "is_navigation (NavReplace r) = True"
| "is_navigation (NavNavigate r) = True"
| "is_navigation NavGoBack = True"
| "is_navigation OnLoginSuccess = True"
| "is_navigation OnRegisterSuccess = True"
| "is_navigation e = False"

section \<open>The application shell\<close>

record app_state =
  app_isLoading :: bool
  app_isLoggedIn :: bool

definition initial_app_state :: app_state where
  "initial_app_state = \<lparr>app_isLoading = True, app_isLoggedIn = False\<rparr>"

text \<open>\<open>!!userToken\<close> for a value that is a string or \<open>null\<close>.\<close>

definition truthy_opt :: "jsstring option \<Rightarrow> bool" where
  "truthy_opt t = (case t of None \<Rightarrow> False | Some s \<Rightarrow> truthy s)"

text \<open>
  \<open>checkLoginStatus\<close>: the \<open>try\<close> block (the delay, the read, \<open>setIsLoggedIn\<close>), whose
  \<open>catch\<close> only logs, and then the \<open>finally\<close> block.
\<close>

definition checkLoginStatus_try :: "world \<Rightarrow> app_state \<Rightarrow> app_state" where
  "checkLoginStatus_try w st =
     (case timer_promise 2000 of
        Inl error \<Rightarrow> st
      | Inr u \<Rightarrow>
          (case AsyncStorage_getItem (lit ''userToken'') w of
             Inl error \<Rightarrow> st
           | Inr userToken \<Rightarrow> st\<lparr>app_isLoggedIn := truthy_opt userToken\<rparr>))"

definition checkLoginStatus :: "world \<Rightarrow> app_state \<Rightarrow> app_state" where
  "checkLoginStatus w st = (checkLoginStatus_try w st)\<lparr>app_isLoading := False\<rparr>"

text \<open>What \<open>App\<close> renders: the navigator with the Loading screen alone, or the full navigator
  with its \<open>initialRouteName\<close>.\<close>

datatype app_view = LoadingNavigator | AppNavigator route

definition App :: "app_state \<Rightarrow> app_view" where
  "App st =
     (if app_isLoading st then LoadingNavigator
      else AppNavigator (if app_isLoggedIn st then Home else Login))"

section \<open>The register screen\<close>

record register_props =
  rg_navigation :: bool
  rg_onRegisterSuccess :: bool

record formData =
  fd_name :: jsstring
  fd_email :: jsstring
  fd_password :: jsstring
  fd_confirmPassword :: jsstring

text \<open>\<open>interface FormErrors\<close>: four optional messages.\<close>

record FormErrors =
  err_name :: "jsstring option"
  err_email :: "jsstring option"
  err_password :: "jsstring option"
  err_confirmPassword :: "jsstring option"

record register_state =
  rg_formData :: formData
  rg_showPassword :: bool
  rg_showConfirmPassword :: bool
  rg_agreeToTerms :: bool
  rg_isLoading :: bool
  rg_errors :: FormErrors
  rg_focusedInput :: "jsstring option"

definition initial_register_state :: register_state where
  "initial_register_state =
     \<lparr>rg_formData = \<lparr>fd_name = [], fd_email = [], fd_password = [], fd_confirmPassword = []\<rparr>,
      rg_showPassword = False, rg_showConfirmPassword = False, rg_agreeToTerms = False,
      rg_isLoading = False,
      rg_errors = \<lparr>err_name = None, err_email = None, err_password = None,
                   err_confirmPassword = None\<rparr>,
      rg_focusedInput = None\<rparr>"

text \<open>\<open>Object.keys(errors).length\<close>: the number of messages present.\<close>

definition Object_keys_length :: "FormErrors \<Rightarrow> nat" where
  "Object_keys_length e =
     length (filter (\<lambda>m. m \<noteq> None) [err_name e, err_email e, err_password e, err_confirmPassword e])"

text \<open>
  \<open>handleRegister\<close> up to its \<open>await\<close>: the events, the state, and whether it is now
  waiting for the delay (\<open>False\<close>: it returned).
\<close>

definition handleRegister_begin :: "register_state \<Rightarrow> event list \<times> register_state \<times> bool" where
  "handleRegister_begin st =
     (let fd = rg_formData st in
      if \<not> truthy (fd_name fd) \<or> \<not> truthy (fd_email fd) \<or> \<not> truthy (fd_password fd)
         \<or> \<not> truthy (fd_confirmPassword fd) then
        ([Alert (lit ''Error'') (lit ''Please fill in all fields'')], st, False)
      else if \<not> rg_agreeToTerms st then
        ([Alert (lit ''Error'') (lit ''Please agree to the Terms & Conditions'')], st, False)
      else if Object_keys_length (rg_errors st) > 0 then
        ([Alert (lit ''Error'') (lit ''Please fix the validation errors before continuing'')],
         st, False)
      else ([], st\<lparr>rg_isLoading := True\<rparr>, True))"

text \<open>
  The rest of \<open>handleRegister\<close>, once the awaited delay has settled: the success path or
  the \<open>catch\<close> block, then \<open>finally\<close>. The logged object is not modelled, only that the
  line is logged.
\<close>

definition handleRegister_resume :: "exn + unit \<Rightarrow> register_state \<Rightarrow> event list \<times> register_state" where
  "handleRegister_resume awaited st =
     (case awaited of
        Inr u \<Rightarrow>
          ([ConsoleLog (lit ''Registration data:''),
            Alert (lit ''Success'') (lit ''Account created successfully!'')],
           st\<lparr>rg_isLoading := False\<rparr>)
      | Inl error \<Rightarrow>
          ([ConsoleError (lit ''Registration error:''),
            Alert (lit ''Error'') (lit ''Registration failed. Please try again.'')],
           st\<lparr>rg_isLoading := False\<rparr>))"

text \<open>The whole handler, when nothing else runs while it waits.\<close>

definition handleRegister :: "register_state \<Rightarrow> event list \<times> register_state" where
  "handleRegister st =
     (case handleRegister_begin st of
        (evs, st1, False) \<Rightarrow> (evs, st1)
      | (evs, st1, True) \<Rightarrow>
          (case handleRegister_resume (timer_promise 2000) st1 of
             (evs2, st2) \<Rightarrow> (evs @ evs2, st2)))"

text \<open>The \<open>onPress\<close> of the success alert's OK button.\<close>

definition registerSuccess_onPress :: "register_props \<Rightarrow> event list" where
  "registerSuccess_onPress pr =
     (if rg_navigation pr then [NavReplace Home]
      else if rg_onRegisterSuccess pr then [OnRegisterSuccess]
      else [])"

section \<open>The forgot-password screen\<close>

datatype ForgotPasswordStep = email | otp | newPassword | success

record fp_props =
  fp_navigation :: bool

record fp_state =
  fp_currentStep :: ForgotPasswordStep
  fp_email :: jsstring
  fp_otp :: jsstring
  fp_newPassword :: jsstring
  fp_confirmPassword :: jsstring
  fp_isLoading :: bool
  fp_showNewPassword :: bool
  fp_showConfirmPassword :: bool
  fp_errors :: "jsstring \<rightharpoonup> jsstring"
  fp_resendTimer :: nat

definition initial_fp_state :: fp_state where
  "initial_fp_state =
     \<lparr>fp_currentStep = email, fp_email = [], fp_otp = [], fp_newPassword = [],
      fp_confirmPassword = [], fp_isLoading = False, fp_showNewPassword = False,
      fp_showConfirmPassword = False, fp_errors = Map.empty, fp_resendTimer = 0\<rparr>"

definition clearError :: "jsstring \<Rightarrow> fp_state \<Rightarrow> fp_state" where
  "clearError field st =
     (case fp_errors st field of
        None \<Rightarrow> st
      | Some m \<Rightarrow> if truthy m then st\<lparr>fp_errors := (fp_errors st)(field \<mapsto> lit [])\<rparr> else st)"

text \<open>
  \<open>value.replace(/[^0-9]/g, '')\<close> removes every code unit of the class \<open>[^0-9]\<close>;
  \<open>.slice(0, 6)\<close> keeps the first six code units.
\<close>

definition remove_all :: "(cu \<Rightarrow> bool) \<Rightarrow> jsstring \<Rightarrow> jsstring" where
  "remove_all C s = filter (\<lambda>c. \<not> C c) s"

definition slice0 :: "nat \<Rightarrow> jsstring \<Rightarrow> jsstring" where
  "slice0 n s = take n s"

text \<open>The \<open>onChangeText\<close> of the verification-code field, the only writer of \<open>otp\<close>.\<close>

definition otp_onChangeText :: "jsstring \<Rightarrow> fp_state \<Rightarrow> fp_state" where
  "otp_onChangeText v st =
     (let numericValue = slice0 6 (remove_all (\<lambda>c. \<not> isDigit c) v)
      in clearError (lit ''otp'') (st\<lparr>fp_otp := numericValue\<rparr>))"

text \<open>
  Each of the three submit handlers validates, sets \<open>isLoading\<close> and waits for a delay; what
  follows the \<open>await\<close> runs later, on the state of that moment, with the variables the handler
  had captured. \<open>_begin\<close> is the part before the \<open>await\<close> (\<open>None\<close> or \<open>False\<close>: the handler
  returned), \<open>_resume\<close> the part after it: the success path or the \<open>catch\<close> block, then
  \<open>finally\<close>.
\<close>

definition otp_sent_message :: "jsstring \<Rightarrow> jsstring" where
  "otp_sent_message e =
     lit ''We'' @ [0x27] @ lit ''ve sent a 6-digit verification code to '' @ e
       @ lit ''. Please check your email.''"

definition handleSendOTP_begin :: "fp_state \<Rightarrow> fp_state \<times> jsstring option" where
  "handleSendOTP_begin st =
     (let emailError = validateEmail_fp (fp_email st) in
      if truthy emailError then (st\<lparr>fp_errors := [lit ''email'' \<mapsto> emailError]\<rparr>, None)
      else (st\<lparr>fp_isLoading := True\<rparr>, Some (fp_email st)))"

definition handleSendOTP_resume :: "exn + unit \<Rightarrow> jsstring \<Rightarrow> fp_state \<Rightarrow> event list \<times> fp_state" where
  "handleSendOTP_resume awaited e st =
     (case awaited of
        Inr u \<Rightarrow>
          ([Animate forward, Alert (lit ''OTP Sent!'') (otp_sent_message e)],
           st\<lparr>fp_currentStep := otp, fp_resendTimer := 60, fp_isLoading := False\<rparr>)
      | Inl error \<Rightarrow>
          ([ConsoleError (lit ''Send OTP error:''),
            Alert (lit ''Error'')
              (case error of Error m \<Rightarrow> m
               | NonError \<Rightarrow> lit ''Failed to send OTP. Please try again.'')],
           st\<lparr>fp_isLoading := False\<rparr>))"

definition handleVerifyOTP_begin :: "fp_state \<Rightarrow> fp_state \<times> bool" where
  "handleVerifyOTP_begin st =
     (let otpError = validateOTP (fp_otp st) in
      if truthy otpError then (st\<lparr>fp_errors := [lit ''otp'' \<mapsto> otpError]\<rparr>, False)
      else (st\<lparr>fp_isLoading := True\<rparr>, True))"

definition handleVerifyOTP_resume :: "exn + unit \<Rightarrow> fp_state \<Rightarrow> event list \<times> fp_state" where
  "handleVerifyOTP_resume awaited st =
     (case awaited of
        Inr u \<Rightarrow> ([Animate forward], st\<lparr>fp_currentStep := newPassword, fp_isLoading := False\<rparr>)
      | Inl error \<Rightarrow>
          ([ConsoleError (lit ''Verify OTP error:''),
            Alert (lit ''Invalid OTP'')
              (lit ''The verification code you entered is invalid or has expired. Please try again.'')],
           st\<lparr>fp_errors := [lit ''otp'' \<mapsto> lit ''Invalid or expired OTP''],
              fp_isLoading := False\<rparr>))"

definition handleResetPassword_begin :: "fp_state \<Rightarrow> fp_state \<times> bool" where
  "handleResetPassword_begin st =
     (let passwordError = validateNewPassword (fp_newPassword st);
          confirmError = validateConfirmPassword (fp_confirmPassword st) (fp_newPassword st)
      in if truthy passwordError \<or> truthy confirmError then
           (st\<lparr>fp_errors := [lit ''newPassword'' \<mapsto> passwordError,
                              lit ''confirmPassword'' \<mapsto> confirmError]\<rparr>, False)
         else (st\<lparr>fp_isLoading := True\<rparr>, True))"

definition handleResetPassword_resume :: "exn + unit \<Rightarrow> fp_state \<Rightarrow> event list \<times> fp_state" where
  "handleResetPassword_resume awaited st =
     (case awaited of
        Inr u \<Rightarrow> ([Animate forward], st\<lparr>fp_currentStep := success, fp_isLoading := False\<rparr>)
      | Inl error \<Rightarrow>
          ([ConsoleError (lit ''Reset password error:''),
            Alert (lit ''Reset Failed'')
              (case error of Error m \<Rightarrow> m
               | NonError \<Rightarrow> lit ''Failed to reset password. Please try again.'')],
           st\<lparr>fp_isLoading := False\<rparr>))"

text \<open>The handlers as a whole, when nothing else runs while they wait.\<close>

definition handleSendOTP :: "fp_state \<Rightarrow> event list \<times> fp_state" where
  "handleSendOTP st =
     (case handleSendOTP_begin st of
        (st1, None) \<Rightarrow> ([], st1)
      | (st1, Some e) \<Rightarrow> handleSendOTP_resume (timer_promise 2000) e st1)"

definition handleVerifyOTP :: "fp_state \<Rightarrow> event list \<times> fp_state" where
  "handleVerifyOTP st =
     (case handleVerifyOTP_begin st of
        (st1, False) \<Rightarrow> ([], st1)
      | (st1, True) \<Rightarrow> handleVerifyOTP_resume (timer_promise 1500) st1)"

definition handleResetPassword :: "fp_state \<Rightarrow> event list \<times> fp_state" where
  "handleResetPassword st =
     (case handleResetPassword_begin st of
        (st1, False) \<Rightarrow> ([], st1)
      | (st1, True) \<Rightarrow> handleResetPassword_resume (timer_promise 2000) st1)"

definition handleResendOTP :: "fp_state \<Rightarrow> event list \<times> fp_state" where
  "handleResendOTP st =
     (if fp_resendTimer st > 0 then ([], st)
      else
        (case timer_promise 1000 of
           Inr u \<Rightarrow>
             ([Alert (lit ''OTP Resent'')
                 (lit ''A new verification code has been sent to your email.'')],
              st\<lparr>fp_resendTimer := 60\<rparr>)
         | Inl error \<Rightarrow>
             ([Alert (lit ''Error'') (lit ''Failed to resend OTP. Please try again.'')],
              st\<lparr>fp_resendTimer := 0\<rparr>)))"

definition handleBackToLogin :: "fp_props \<Rightarrow> event list" where
  "handleBackToLogin pr = (if fp_navigation pr then [NavNavigate Login] else [])"

definition handleBackStep :: "fp_props \<Rightarrow> fp_state \<Rightarrow> event list \<times> fp_state" where
  "handleBackStep pr st =
     (case fp_currentStep st of
        otp \<Rightarrow> ([Animate backward], st\<lparr>fp_currentStep := email\<rparr>)
      | newPassword \<Rightarrow> ([Animate backward], st\<lparr>fp_currentStep := otp\<rparr>)
      | success \<Rightarrow> (Animate backward # handleBackToLogin pr, st)
      | email \<Rightarrow> (Animate backward # (if fp_navigation pr then [NavGoBack] else []), st))"

text \<open>
  The handlers a user can start: \<open>renderStepContent\<close> wires those of the current step's
  form, and the header wires \<open>handleBackStep\<close> in every step.
\<close>

datatype fp_action = SendOTP | VerifyOTP | ResendOTP | ResetPassword | BackToLogin | BackStep

definition renderStepContent :: "ForgotPasswordStep \<Rightarrow> fp_action list" where
  "renderStepContent s =
     (case s of
        email \<Rightarrow> [SendOTP]
      | otp \<Rightarrow> [VerifyOTP, ResendOTP]
      | newPassword \<Rightarrow> [ResetPassword]
      | success \<Rightarrow> [BackToLogin])"

definition offered :: "fp_state \<Rightarrow> fp_action list" where
  "offered st = BackStep # renderStepContent (fp_currentStep st)"

definition perform :: "fp_props \<Rightarrow> fp_action \<Rightarrow> fp_state \<Rightarrow> event list \<times> fp_state" where
  "perform pr a st =
     (case a of
        SendOTP \<Rightarrow> handleSendOTP st
      | VerifyOTP \<Rightarrow> handleVerifyOTP st
      | ResendOTP \<Rightarrow> handleResendOTP st
      | ResetPassword \<Rightarrow> handleResetPassword st
      | BackToLogin \<Rightarrow> (handleBackToLogin pr, st)
      | BackStep \<Rightarrow> handleBackStep pr st)"

text \<open>The position of a step in the wizard.\<close>

fun step_index :: "ForgotPasswordStep \<Rightarrow> nat" where
  "step_index email = 0"
| "step_index otp = 1"
| "step_index newPassword = 2"
| "step_index success = 3"

section \<open>Properties of strings and patterns\<close>

lemma cu_of_char_inject: "cu_of_char a = cu_of_char b \<longleftrightarrow> a = b"
proof
  assume "cu_of_char a = cu_of_char b"
  then have "take_bit 16 (of_char a :: nat) = take_bit 16 (of_char b :: nat)"
    by (simp add: cu_of_char_def word_of_nat_eq_iff)
  moreover have "take_bit 16 (of_char c :: nat) = of_char c" for c
  proof (rule take_bit_nat_eq_self)
    have "(of_char c :: nat) < 256" by simp
    also have "(256 :: nat) < 2 ^ 16" by simp
    finally show "(of_char c :: nat) < 2 ^ 16" .
  qed
  ultimately show "a = b" by simp
qed simp

lemma lit_inject [simp]: "lit a = lit b \<longleftrightarrow> a = b"
  unfolding lit_def by (rule inj_map_eq_map) (simp add: inj_on_def cu_of_char_inject)

lemma lit_Nil [simp]: "lit [] = []"
  by (simp add: lit_def)

lemma lit_eq_Nil [simp]: "lit s = [] \<longleftrightarrow> s = []" "[] = lit s \<longleftrightarrow> s = []"
  by (auto simp: lit_def)

lemma truthy_lit [simp]: "truthy (lit s) \<longleftrightarrow> s \<noteq> []"
  by (simp add: truthy_def lit_def)

lemma truthy_Nil [simp]: "\<not> truthy []"
  by (simp add: truthy_def)

lemma nullable_lang: "nullable r \<longleftrightarrow> [] \<in> lang r"
  by (induction r) (auto intro: star.intros)

lemma star_Cons_iff:
  "c # s \<in> star L \<longleftrightarrow> (\<exists>u v. s = u @ v \<and> c # u \<in> L \<and> v \<in> star L)"
proof
  assume "c # s \<in> star L"
  then show "\<exists>u v. s = u @ v \<and> c # u \<in> L \<and> v \<in> star L"
  proof (induction "c # s" arbitrary: s rule: star.induct)
    case (star_app u v)
    then show ?case by (cases u) auto
  qed
next
  assume "\<exists>u v. s = u @ v \<and> c # u \<in> L \<and> v \<in> star L"
  then obtain u v where "s = u @ v" "c # u \<in> L" "v \<in> star L" by blast
  then show "c # s \<in> star L" using star_app [of "c # u" L v] by simp
qed

lemma lang_deriv: "s \<in> lang (deriv c r) \<longleftrightarrow> c # s \<in> lang r"
proof (induction r arbitrary: s)
  case (Cat r1 r2)
  show ?case
    by (auto simp: Cat nullable_lang Cons_eq_append_conv)
next
  case (Star r)
  show ?case by (auto simp: Star star_Cons_iff)
qed auto

lemma matches_lang: "matches r s \<longleftrightarrow> s \<in> lang r"
  by (induction s arbitrary: r) (auto simp: nullable_lang lang_deriv)

lemma star_Class: "s \<in> star {[c] | c. P c} \<longleftrightarrow> (\<forall>c \<in> set s. P c)"
proof
  assume "s \<in> star {[c] | c. P c}"
  then show "\<forall>c \<in> set s. P c" by (induction rule: star.induct) auto
next
  assume "\<forall>c \<in> set s. P c"
  then show "s \<in> star {[c] | c. P c}"
  proof (induction s)
    case Nil
    show ?case by (rule star_Nil)
  next
    case (Cons a s)
    then have "[a] \<in> {[c] | c. P c}" "s \<in> star {[c] | c. P c}" by auto
    then show ?case using star_app [of "[a]" "{[c] | c. P c}" s] by simp
  qed
qed

lemma lang_OneOrMore_Class:
  "s \<in> lang (OneOrMore (Class P)) \<longleftrightarrow> s \<noteq> [] \<and> (\<forall>c \<in> set s. P c)"
proof
  assume "s \<in> lang (OneOrMore (Class P))"
  then obtain c v where "s = [c] @ v" "P c" "v \<in> star {[c] | c. P c}"
    by (auto simp: OneOrMore_def)
  then show "s \<noteq> [] \<and> (\<forall>c \<in> set s. P c)"
    by (auto simp: star_Class)
next
  assume a: "s \<noteq> [] \<and> (\<forall>c \<in> set s. P c)"
  then obtain c v where s: "s = c # v" by (cases s) auto
  with a have "[c] \<in> {[c] | c. P c}" "v \<in> star {[c] | c. P c}"
    by (auto simp: star_Class)
  then have "[c] @ v \<in> {u @ w | u w. u \<in> {[c] | c. P c} \<and> w \<in> star {[c] | c. P c}}"
    by blast
  then show "s \<in> lang (OneOrMore (Class P))" by (simp add: s OneOrMore_def)
qed

lemma lang_Cat: "s \<in> lang (Cat r1 r2) \<longleftrightarrow> (\<exists>u v. s = u @ v \<and> u \<in> lang r1 \<and> v \<in> lang r2)"
  by auto

lemma lang_CatI: "u \<in> lang r1 \<Longrightarrow> v \<in> lang r2 \<Longrightarrow> u @ v \<in> lang (Cat r1 r2)"
  by auto

lemma lang_Class_eq: "s \<in> lang (Class (\<lambda>c. c = a)) \<longleftrightarrow> s = [a]"
  by auto

lemma EMAIL_REGEX_lang:
  "s \<in> lang EMAIL_REGEX \<longleftrightarrow>
     (\<exists>l d e. s = l @ AT # d @ DOT # e \<and> l \<noteq> [] \<and> d \<noteq> [] \<and> e \<noteq> []
        \<and> (\<forall>c \<in> set l. notSpaceAt c) \<and> (\<forall>c \<in> set d. notSpaceAt c)
        \<and> (\<forall>c \<in> set e. notSpaceAt c))"
  (is "?L \<longleftrightarrow> ?R")
proof
  assume ?L
  then show ?R
    unfolding EMAIL_REGEX_def lang_Cat lang_OneOrMore_Class lang_Class_eq by auto
next
  assume ?R
  then obtain l d e where s: "s = l @ AT # d @ DOT # e"
    and l: "l \<in> lang (OneOrMore (Class notSpaceAt))"
    and d: "d \<in> lang (OneOrMore (Class notSpaceAt))"
    and e: "e \<in> lang (OneOrMore (Class notSpaceAt))"
    unfolding lang_OneOrMore_Class by blast
  have at: "[AT] \<in> lang (Class (\<lambda>c. c = AT))" and dot: "[DOT] \<in> lang (Class (\<lambda>c. c = DOT))"
    by simp_all
  have "l @ [AT] @ d @ [DOT] @ e \<in> lang EMAIL_REGEX"
    unfolding EMAIL_REGEX_def
    by (intro lang_CatI l at d dot e)
  then show ?L by (simp add: s)
qed

lemma trim_no_space: "\<forall>c \<in> set s. \<not> isWhiteSpace c \<Longrightarrow> trim s = s"
proof -
  assume a: "\<forall>c \<in> set s. \<not> isWhiteSpace c"
  have dw: "dropWhile isWhiteSpace t = t" if "\<forall>c \<in> set t. \<not> isWhiteSpace c" for t
    using that by (cases t) auto
  from a have "dropWhile isWhiteSpace s = s" by (rule dw)
  moreover from a have "dropWhile isWhiteSpace (rev s) = rev s" by (intro dw) simp
  ultimately show ?thesis by (simp add: trim_def)
qed

lemma AT_DOT_not_space: "\<not> isWhiteSpace AT" "\<not> isWhiteSpace DOT"
  by (simp_all add: isWhiteSpace_def isLineTerminator_def AT_def DOT_def)

lemma EMAIL_REGEX_shape:
  assumes "test_anchored EMAIL_REGEX s"
  shows "\<exists>l d. s = l @ AT # d \<and> l \<noteq> [] \<and> (\<forall>c \<in> set l. c \<noteq> AT \<and> \<not> isWhiteSpace c)
           \<and> DOT \<in> set d \<and> (\<forall>c \<in> set s. \<not> isWhiteSpace c)"
proof -
  from assms obtain l d e where s: "s = l @ AT # d @ DOT # e" and "l \<noteq> []"
    and l: "\<forall>c \<in> set l. notSpaceAt c" and d: "\<forall>c \<in> set d. notSpaceAt c"
    and e: "\<forall>c \<in> set e. notSpaceAt c"
    unfolding test_anchored_def matches_lang EMAIL_REGEX_lang by blast
  have "s = l @ AT # (d @ DOT # e)" by (simp add: s)
  moreover have "\<forall>c \<in> set l. c \<noteq> AT \<and> \<not> isWhiteSpace c"
    using l by (simp add: notSpaceAt_def)
  moreover have "DOT \<in> set (d @ DOT # e)" by simp
  moreover have "\<forall>c \<in> set s. \<not> isWhiteSpace c"
    using l d e AT_DOT_not_space by (auto simp: s notSpaceAt_def)
  ultimately show ?thesis using \<open>l \<noteq> []\<close> by blast
qed

lemma EMAIL_REGEX_needs_at: "test_anchored EMAIL_REGEX s \<Longrightarrow> AT \<in> set s"
  using EMAIL_REGEX_shape [of s] by auto

lemma validateEmail_fp_accepts: "validateEmail_fp s = lit [] \<longleftrightarrow> test_anchored EMAIL_REGEX s"
proof
  assume "validateEmail_fp s = lit []"
  then show "test_anchored EMAIL_REGEX s"
    by (auto simp: validateEmail_fp_def split: if_splits)
next
  assume m: "test_anchored EMAIL_REGEX s"
  then have "\<forall>c \<in> set s. \<not> isWhiteSpace c" and "s \<noteq> []"
    using EMAIL_REGEX_shape [of s] by auto
  then have "truthy (trim s)" by (simp add: trim_no_space truthy_def)
  with m show "validateEmail_fp s = lit []" by (simp add: validateEmail_fp_def)
qed

text \<open>
  C7. An input without \<open>@\<close> is rejected by both screens' \<open>validateEmail\<close>; both accept
  exactly the strings matching \<open>EMAIL_REGEX\<close>; and an accepted string is a non-empty local
  part free of \<open>@\<close> and whitespace, then \<open>@\<close>, then a domain containing a dot, with no
  whitespace anywhere.
\<close>

theorem C7_email_validation:
  "(AT \<notin> set s \<longrightarrow> \<not> validateEmail_reg s \<and> validateEmail_fp s \<noteq> lit [])
   \<and> (validateEmail_reg s \<longleftrightarrow> test_anchored EMAIL_REGEX s)
   \<and> (validateEmail_fp s = lit [] \<longleftrightarrow> test_anchored EMAIL_REGEX s)
   \<and> (validateEmail_reg s \<longrightarrow>
        (\<exists>local domain. s = local @ AT # domain \<and> local \<noteq> []
           \<and> (\<forall>c \<in> set local. c \<noteq> AT \<and> \<not> isWhiteSpace c)
           \<and> DOT \<in> set domain \<and> (\<forall>c \<in> set s. \<not> isWhiteSpace c)))"
  using EMAIL_REGEX_needs_at [of s] EMAIL_REGEX_shape [of s] validateEmail_fp_accepts [of s]
  by (auto simp: validateEmail_reg_def)

lemma lit_ab_c: "lit ''ab.c'' = [0x61, 0x62, 0x2E, 0x63]"
  and lit_a_at_b_c: "lit ''a@b.c'' = [0x61, 0x40, 0x62, 0x2E, 0x63]"
  by (simp_all add: lit_def cu_of_char_def)

theorem C7_email_validation_witness:
  "AT \<notin> set (lit ''ab.c'') \<and> \<not> validateEmail_reg (lit ''ab.c'')
   \<and> validateEmail_fp (lit ''ab.c'') \<noteq> lit []
   \<and> validateEmail_reg (lit ''a@b.c'') \<and> validateEmail_fp (lit ''a@b.c'') = lit []
   \<and> (\<exists>local domain. lit ''a@b.c'' = local @ AT # domain \<and> local \<noteq> []
           \<and> (\<forall>c \<in> set local. c \<noteq> AT \<and> \<not> isWhiteSpace c)
           \<and> DOT \<in> set domain \<and> (\<forall>c \<in> set (lit ''a@b.c''). \<not> isWhiteSpace c))"
proof -
  have no_at: "AT \<notin> set (lit ''ab.c'')"
    by (simp add: lit_ab_c AT_def)
  have ok: "validateEmail_reg (lit ''a@b.c'')"
    by (simp add: lit_a_at_b_c validateEmail_reg_def test_anchored_def EMAIL_REGEX_def
        OneOrMore_def notSpaceAt_def isWhiteSpace_def isLineTerminator_def AT_def DOT_def)
  show ?thesis
    using no_at ok C7_email_validation [of "lit ''ab.c''"] C7_email_validation [of "lit ''a@b.c''"]
    by blast
qed

section \<open>Password rules\<close>

lemma lang_Star_AnyChar: "s \<in> lang (Star AnyChar)"
  using star_Class [of s "\<lambda>c. True"] by (simp add: AnyChar_def)

lemma test_lookahead_class:
  "test_lookahead (Cat (Star Dot) (Class P)) s \<longleftrightarrow> (\<exists>c \<in> set s. P c)"
proof
  assume "test_lookahead (Cat (Star Dot) (Class P)) s"
  then obtain t where t: "suffix t s" and "t \<in> lang (Cat (Cat (Star Dot) (Class P)) (Star AnyChar))"
    by (auto simp: test_lookahead_def list_ex_iff matches_lang simp del: lang.simps)
  then obtain u c v where "t = (u @ [c]) @ v" "P c"
    by auto
  then have "c \<in> set t" by simp
  with t have "c \<in> set s" using set_mono_suffix by blast
  with \<open>P c\<close> show "\<exists>c \<in> set s. P c" by blast
next
  assume "\<exists>c \<in> set s. P c"
  then obtain c where "c \<in> set s" "P c" by blast
  then obtain a b where s: "s = a @ c # b" by (auto dest: split_list)
  have "[] \<in> lang (Star Dot)" by (simp add: star_Nil)
  moreover have "[c] \<in> lang (Class P)" using \<open>P c\<close> by simp
  ultimately have "[] @ [c] \<in> lang (Cat (Star Dot) (Class P))" by (rule lang_CatI)
  then have "([] @ [c]) @ b \<in> lang (Cat (Cat (Star Dot) (Class P)) (Star AnyChar))"
    using lang_Star_AnyChar by (rule lang_CatI)
  then have "matches (Cat (Cat (Star Dot) (Class P)) (Star AnyChar)) (c # b)"
    by (simp add: matches_lang del: lang.simps)
  moreover have "suffix (c # b) s" by (simp add: s suffix_def)
  ultimately show "test_lookahead (Cat (Star Dot) (Class P)) s"
    unfolding test_lookahead_def list_ex_iff by (intro bexI [of _ "c # b"]) simp_all
qed

text \<open>
  C6. \<open>validatePassword(p).isValid\<close> holds exactly when \<open>p\<close> has at least 8 code units, a
  letter of \<open>a-z\<close>, a letter of \<open>A-Z\<close> and a digit; the message is that of the first rule
  that fails, in this order. \<open>validateNewPassword\<close> of the forgot-password screen accepts
  exactly the passwords of at least \<open>PASSWORD_MIN_LENGTH = 6\<close> code units.
\<close>

theorem C6_validatePassword:
  "(isValid (validatePassword p) \<longleftrightarrow>
      8 \<le> length p \<and> (\<exists>c \<in> set p. isLower c) \<and> (\<exists>c \<in> set p. isUpper c)
      \<and> (\<exists>c \<in> set p. isDigit c))
   \<and> message (validatePassword p) =
       (if length p < 8 then Some (lit ''Password must be at least 8 characters long'')
        else if \<not> (\<exists>c \<in> set p. isLower c) then
          Some (lit ''Password must contain at least one lowercase letter'')
        else if \<not> (\<exists>c \<in> set p. isUpper c) then
          Some (lit ''Password must contain at least one uppercase letter'')
        else if \<not> (\<exists>c \<in> set p. isDigit c) then
          Some (lit ''Password must contain at least one number'')
        else None)
   \<and> (validateNewPassword p = lit [] \<longleftrightarrow> PASSWORD_MIN_LENGTH \<le> length p)
   \<and> PASSWORD_MIN_LENGTH = 6"
  by (auto simp: validatePassword_def test_lookahead_class validateNewPassword_def
      PASSWORD_MIN_LENGTH_def truthy_def)

lemma lit_Abcdefg1: "lit ''Abcdefg1'' = [0x41, 0x62, 0x63, 0x64, 0x65, 0x66, 0x67, 0x31]"
  and lit_abcdefg1: "lit ''abcdefg1'' = [0x61, 0x62, 0x63, 0x64, 0x65, 0x66, 0x67, 0x31]"
  by (simp_all add: lit_def cu_of_char_def)

theorem C6_validatePassword_witness:
  "isValid (validatePassword (lit ''Abcdefg1''))
   \<and> message (validatePassword (lit ''abcdefg1'')) =
       Some (lit ''Password must contain at least one uppercase letter'')
   \<and> message (validatePassword (lit ''Ab1'')) =
       Some (lit ''Password must be at least 8 characters long'')
   \<and> validateNewPassword (lit ''abcdef'') = lit []
   \<and> validateNewPassword (lit ''abcde'') \<noteq> lit []"
proof -
  have a: "8 \<le> length (lit ''Abcdefg1'') \<and> (\<exists>c \<in> set (lit ''Abcdefg1''). isLower c)
      \<and> (\<exists>c \<in> set (lit ''Abcdefg1''). isUpper c) \<and> (\<exists>c \<in> set (lit ''Abcdefg1''). isDigit c)"
    by (simp add: lit_Abcdefg1 isLower_def isUpper_def isDigit_def)
  have b: "\<not> length (lit ''abcdefg1'') < 8 \<and> (\<exists>c \<in> set (lit ''abcdefg1''). isLower c)
      \<and> \<not> (\<exists>c \<in> set (lit ''abcdefg1''). isUpper c)"
    by (simp add: lit_abcdefg1 isLower_def isUpper_def)
  have c: "length (lit ''Ab1'') < 8" "PASSWORD_MIN_LENGTH \<le> length (lit ''abcdef'')"
    "\<not> PASSWORD_MIN_LENGTH \<le> length (lit ''abcde'')"
    by (simp_all add: lit_def PASSWORD_MIN_LENGTH_def)
  show ?thesis
    using a b c C6_validatePassword [of "lit ''Abcdefg1''"] C6_validatePassword [of "lit ''abcdefg1''"]
      C6_validatePassword [of "lit ''Ab1''"] C6_validatePassword [of "lit ''abcdef''"]
      C6_validatePassword [of "lit ''abcde''"]
    by simp
qed

section \<open>The verification-code field\<close>

lemma digit_not_space: "isDigit c \<Longrightarrow> \<not> isWhiteSpace c"
proof
  assume d: "isDigit c" and w: "isWhiteSpace c"
  from d have lo: "0x30 \<le> unat c" and hi: "unat c \<le> 0x39"
    by (simp_all add: isDigit_def word_le_nat_alt)
  from w have "unat c \<in> {0x09, 0x0A, 0x0B, 0x0C, 0x0D, 0x20, 0xA0} \<or> 0x1680 \<le> unat c"
    by (auto simp: isWhiteSpace_def isLineTerminator_def word_le_nat_alt)
  with lo hi show False by auto
qed

lemma test_anchored_digits:
  "test_anchored (OneOrMore (Class isDigit)) s \<longleftrightarrow> s \<noteq> [] \<and> (\<forall>c \<in> set s. isDigit c)"
  by (simp add: test_anchored_def matches_lang lang_OneOrMore_Class del: lang.simps)

lemma validateOTP_digits:
  assumes "\<forall>c \<in> set s. isDigit c"
  shows "validateOTP s =
           (if s = [] then lit ''OTP is required''
            else if length s \<noteq> 6 then lit ''OTP must be 6 digits''
            else lit [])"
proof -
  from assms have "trim s = s" by (intro trim_no_space) (auto dest: digit_not_space)
  with assms show ?thesis
    by (simp add: validateOTP_def truthy_def test_anchored_digits)
qed

lemma fp_otp_clearError [simp]: "fp_otp (clearError f st) = fp_otp st"
  by (simp add: clearError_def split: option.splits)

lemma fp_otp_onChangeText: "fp_otp (otp_onChangeText v st) = take 6 (filter isDigit v)"
  by (simp add: otp_onChangeText_def slice0_def remove_all_def)

text \<open>
  C9, as amended. The value of \<open>otp\<close> is the initial empty string or what the change
  handler stored, so it consists of at most six digits; on such a value \<open>validateOTP\<close>
  answers \<open>OTP is required\<close> when it is empty, the length error when it is not six long,
  and no error otherwise: never the non-numeric error.
\<close>

theorem C9_otp_digits_only:
  assumes "code = fp_otp initial_fp_state \<or> code = fp_otp (otp_onChangeText v st)"
  shows "(\<forall>c \<in> set code. isDigit c) \<and> length code \<le> 6
    \<and> validateOTP code =
        (if code = [] then lit ''OTP is required''
         else if length code \<noteq> 6 then lit ''OTP must be 6 digits''
         else lit [])
    \<and> validateOTP code \<noteq> lit ''OTP must contain only numbers''"
proof -
  from assms have d: "\<forall>c \<in> set code. isDigit c" and l: "length code \<le> 6"
    by (auto simp: initial_fp_state_def fp_otp_onChangeText dest: in_set_takeD)
  from d have v: "validateOTP code =
        (if code = [] then lit ''OTP is required''
         else if length code \<noteq> 6 then lit ''OTP must be 6 digits''
         else lit [])"
    by (rule validateOTP_digits)
  have "validateOTP code \<noteq> lit ''OTP must contain only numbers''"
    unfolding v by simp
  with d l v show ?thesis by blast
qed

lemma lit_12x45: "lit ''12x4567'' = [0x31, 0x32, 0x78, 0x34, 0x35, 0x36, 0x37]"
  and lit_12456: "lit ''124567'' = [0x31, 0x32, 0x34, 0x35, 0x36, 0x37]"
  and lit_abc: "lit ''abc'' = [0x61, 0x62, 0x63]"
  by (simp_all add: lit_def cu_of_char_def)

theorem C9_otp_digits_only_witness:
  "fp_otp (otp_onChangeText (lit ''12x4567'') initial_fp_state) = lit ''124567''
   \<and> validateOTP (fp_otp (otp_onChangeText (lit ''12x4567'') initial_fp_state)) = lit []
   \<and> validateOTP (fp_otp (otp_onChangeText (lit ''12x4567'') initial_fp_state))
       \<noteq> lit ''OTP must contain only numbers''"
proof -
  have e: "fp_otp (otp_onChangeText (lit ''12x4567'') initial_fp_state) = lit ''124567''"
    by (simp add: fp_otp_onChangeText lit_12x45 lit_12456 isDigit_def)
  have n: "lit ''124567'' \<noteq> [] \<and> length (lit ''124567'') = 6"
    by (simp add: lit_def)
  show ?thesis
    using e n C9_otp_digits_only [of "lit ''124567''" "lit ''12x4567''" initial_fp_state]
    by simp
qed

text \<open>
  C9 as stated fails: with nothing typed, or after typing only letters, the stored code
  is empty and \<open>validateOTP\<close> fails with \<open>OTP is required\<close>, which is not the length error.
\<close>

theorem C9_counterexample:
  "validateOTP (fp_otp initial_fp_state) = lit ''OTP is required''
   \<and> validateOTP (fp_otp (otp_onChangeText (lit ''abc'') initial_fp_state)) = lit ''OTP is required''
   \<and> lit ''OTP is required'' \<noteq> lit ''OTP must be 6 digits''
   \<and> lit ''OTP is required'' \<noteq> lit []"
  by (simp add: fp_otp_onChangeText lit_abc isDigit_def initial_fp_state_def validateOTP_def trim_def
      truthy_def)

section \<open>Login: persistence, prefill and outcome\<close>

text \<open>The two persistence calls of a login, by the remember-me flag.\<close>

lemma handleLogin_try_nonempty:
  assumes "truthy (lg_username st)" "truthy (lg_password st)"
  shows "handleLogin_try pr st w =
    (let k1 = (if lg_rememberMe st then KeychainSet (lg_username st) (lg_password st)
               else KeychainReset);
         k2 = StorageSet (lit ''rememberMe'') (if lg_rememberMe st then lit ''true'' else lit ''false'');
         w1 = w\<lparr>keychain := (if lg_rememberMe st then Some (lg_username st, lg_password st)
                             else None)\<rparr>
     in case rejects w k1 of
          Some x \<Rightarrow> ([k1], w, Some x)
        | None \<Rightarrow>
            (case rejects w k2 of
               Some x \<Rightarrow> ([k1, k2], w1, Some x)
             | None \<Rightarrow>
                 ([k1, k2] @ (if lg_navigation pr then [NavReplace Home]
                              else if lg_onLoginSuccess pr then [OnLoginSuccess] else []),
                  w1\<lparr>asyncStorage := (asyncStorage w)
                        (lit ''rememberMe'' \<mapsto> (if lg_rememberMe st then lit ''true'' else lit ''false''))\<rparr>,
                  None)))"
  using assms
  by (simp add: handleLogin_try_def and_then_def Keychain_setGenericPassword_def
      Keychain_resetGenericPassword_def AsyncStorage_setItem_def Let_def split: option.splits)


lemma handleLogin_storage_other_keys:
  "k \<noteq> lit ''rememberMe'' \<Longrightarrow> asyncStorage (snd (handleLogin pr st w)) k = asyncStorage w k"
proof (cases "truthy (lg_username st) \<and> truthy (lg_password st)")
  case True
  then show "k \<noteq> lit ''rememberMe'' \<Longrightarrow> ?thesis"
    by (simp add: handleLogin_def handleLogin_try_nonempty Let_def split: option.splits)
next
  case False
  then show ?thesis by (auto simp: handleLogin_def)
qed

text \<open>
  C2. When a login succeeds (the credentials are non-empty and the \<open>try\<close> block ends
  without an exception), the persistent writes are exactly two: with \<open>rememberMe\<close> the
  pair goes to the keychain and \<open>rememberMe\<close> is set to \<open>true\<close>, without it the keychain
  entry is reset and \<open>rememberMe\<close> is set to \<open>false\<close>. Whatever happens, \<open>handleLogin\<close>
  leaves every other AsyncStorage key as it was.
\<close>

theorem C2_login_persistence:
  "(truthy (lg_username st) \<and> truthy (lg_password st)
      \<and> handleLogin_try pr st w = (evs, w', None) \<longrightarrow>
      handleLogin pr st w = (evs, w')
      \<and> filter is_persistence evs =
          (if lg_rememberMe st then
             [KeychainSet (lg_username st) (lg_password st),
              StorageSet (lit ''rememberMe'') (lit ''true'')]
           else [KeychainReset, StorageSet (lit ''rememberMe'') (lit ''false'')])
      \<and> keychain w' = (if lg_rememberMe st then Some (lg_username st, lg_password st) else None)
      \<and> asyncStorage w' =
          (asyncStorage w)(lit ''rememberMe'' \<mapsto> (if lg_rememberMe st then lit ''true'' else lit ''false'')))
   \<and> (\<forall>k. k \<noteq> lit ''rememberMe'' \<longrightarrow>
         asyncStorage (snd (handleLogin pr st w)) k = asyncStorage w k)"
proof (intro conjI impI allI)
  fix k :: jsstring
  assume "k \<noteq> lit ''rememberMe''"
  then show "asyncStorage (snd (handleLogin pr st w)) k = asyncStorage w k"
    by (rule handleLogin_storage_other_keys)
next
  assume a: "truthy (lg_username st) \<and> truthy (lg_password st)
      \<and> handleLogin_try pr st w = (evs, w', None)"
  then show "handleLogin pr st w = (evs, w')"
    by (simp add: handleLogin_def)
  from a have t: "truthy (lg_username st)" "truthy (lg_password st)" by simp_all
  from a have r: "handleLogin_try pr st w = (evs, w', None)" by simp
  show "filter is_persistence evs =
          (if lg_rememberMe st then
             [KeychainSet (lg_username st) (lg_password st),
              StorageSet (lit ''rememberMe'') (lit ''true'')]
           else [KeychainReset, StorageSet (lit ''rememberMe'') (lit ''false'')])"
    using r unfolding handleLogin_try_nonempty [OF t]
    by (auto simp: Let_def split: option.splits if_splits)
  show "keychain w' = (if lg_rememberMe st then Some (lg_username st, lg_password st) else None)"
    using r unfolding handleLogin_try_nonempty [OF t]
    by (auto simp: Let_def split: option.splits if_splits)
  show "asyncStorage w' =
          (asyncStorage w)(lit ''rememberMe'' \<mapsto> (if lg_rememberMe st then lit ''true'' else lit ''false''))"
    using r unfolding handleLogin_try_nonempty [OF t]
    by (auto simp: Let_def split: option.splits if_splits)
qed

theorem C2_login_persistence_witness:
  "handleLogin \<lparr>lg_navigation = True, lg_onLoginSuccess = False\<rparr>
     \<lparr>lg_username = lit ''bob'', lg_password = lit ''pw'', lg_rememberMe = True,
      lg_showPassword = False\<rparr>
     \<lparr>keychain = None, asyncStorage = Map.empty, rejects = (\<lambda>e. None)\<rparr>
   = ([KeychainSet (lit ''bob'') (lit ''pw''), StorageSet (lit ''rememberMe'') (lit ''true''),
       NavReplace Home],
      \<lparr>keychain = Some (lit ''bob'', lit ''pw''),
       asyncStorage = [lit ''rememberMe'' \<mapsto> lit ''true''], rejects = (\<lambda>e. None)\<rparr>)
   \<and> asyncStorage (snd (handleLogin \<lparr>lg_navigation = True, lg_onLoginSuccess = False\<rparr>
     \<lparr>lg_username = lit ''bob'', lg_password = lit ''pw'', lg_rememberMe = True,
      lg_showPassword = False\<rparr>
     \<lparr>keychain = None, asyncStorage = Map.empty, rejects = (\<lambda>e. None)\<rparr>)) (lit ''userToken'')
     = None"
proof -
  let ?pr = "\<lparr>lg_navigation = True, lg_onLoginSuccess = False\<rparr>"
  let ?st = "\<lparr>lg_username = lit ''bob'', lg_password = lit ''pw'', lg_rememberMe = True,
      lg_showPassword = False\<rparr>"
  let ?w = "\<lparr>keychain = None, asyncStorage = Map.empty, rejects = (\<lambda>e. None)\<rparr>"
  let ?evs = "[KeychainSet (lit ''bob'') (lit ''pw''), StorageSet (lit ''rememberMe'') (lit ''true''),
       NavReplace Home]"
  let ?w' = "\<lparr>keychain = Some (lit ''bob'', lit ''pw''),
       asyncStorage = [lit ''rememberMe'' \<mapsto> lit ''true''], rejects = (\<lambda>e. None)\<rparr>"
  have t: "truthy (lg_username ?st) \<and> truthy (lg_password ?st)" by simp
  have r: "handleLogin_try ?pr ?st ?w = (?evs, ?w', None)"
    by (simp add: handleLogin_try_def and_then_def Keychain_setGenericPassword_def
        AsyncStorage_setItem_def)
  have k: "lit ''userToken'' \<noteq> lit ''rememberMe''" by simp
  show ?thesis
    using t r k C2_login_persistence [of ?st ?pr ?w ?evs ?w'] by simp
qed


text \<open>
  C3. On mount, when the stored \<open>rememberMe\<close> value is \<open>true\<close> and the keychain returns
  credentials, the username, the password and the checkbox are filled from them; when the
  value is anything else (or missing), or the keychain returns none, the state stays as it
  was, which on mount is the initial one: both fields empty and the checkbox off.
\<close>

theorem C3_prefill_on_mount:
  "(AsyncStorage_getItem (lit ''rememberMe'') w = Inr (Some (lit ''true''))
      \<and> Keychain_getGenericPassword w = Inr (Some (u, p)) \<longrightarrow>
      snd (loadStoredCredentials st w)
        = st\<lparr>lg_username := u, lg_password := p, lg_rememberMe := True\<rparr>)
   \<and> (AsyncStorage_getItem (lit ''rememberMe'') w \<noteq> Inr (Some (lit ''true''))
      \<or> Keychain_getGenericPassword w = Inr None \<longrightarrow>
      snd (loadStoredCredentials st w) = st)
   \<and> lg_username initial_login_state = [] \<and> lg_password initial_login_state = []
   \<and> \<not> lg_rememberMe initial_login_state"
  by (auto simp: loadStoredCredentials_def initial_login_state_def split: sum.splits option.splits)

theorem C3_prefill_on_mount_witness:
  "snd (loadStoredCredentials initial_login_state
     \<lparr>keychain = Some (lit ''bob'', lit ''pw''),
      asyncStorage = [lit ''rememberMe'' \<mapsto> lit ''true''], rejects = (\<lambda>e. None)\<rparr>)
   = \<lparr>lg_username = lit ''bob'', lg_password = lit ''pw'', lg_rememberMe = True,
      lg_showPassword = False\<rparr>
   \<and> snd (loadStoredCredentials initial_login_state
     \<lparr>keychain = Some (lit ''bob'', lit ''pw''),
      asyncStorage = [lit ''rememberMe'' \<mapsto> lit ''false''], rejects = (\<lambda>e. None)\<rparr>)
   = initial_login_state
   \<and> snd (loadStoredCredentials initial_login_state
     \<lparr>keychain = None,
      asyncStorage = [lit ''rememberMe'' \<mapsto> lit ''true''], rejects = (\<lambda>e. None)\<rparr>)
   = initial_login_state"
proof -
  let ?w1 = "\<lparr>keychain = Some (lit ''bob'', lit ''pw''),
      asyncStorage = [lit ''rememberMe'' \<mapsto> lit ''true''], rejects = (\<lambda>e. None)\<rparr>"
  let ?w2 = "\<lparr>keychain = Some (lit ''bob'', lit ''pw''),
      asyncStorage = [lit ''rememberMe'' \<mapsto> lit ''false''], rejects = (\<lambda>e. None)\<rparr>"
  let ?w3 = "\<lparr>keychain = None,
      asyncStorage = [lit ''rememberMe'' \<mapsto> lit ''true''], rejects = (\<lambda>e. None)\<rparr>"
  have a: "AsyncStorage_getItem (lit ''rememberMe'') ?w1 = Inr (Some (lit ''true''))
      \<and> Keychain_getGenericPassword ?w1 = Inr (Some (lit ''bob'', lit ''pw''))"
    by (simp add: AsyncStorage_getItem_def Keychain_getGenericPassword_def)
  have b: "AsyncStorage_getItem (lit ''rememberMe'') ?w2 \<noteq> Inr (Some (lit ''true''))"
    by (simp add: AsyncStorage_getItem_def)
  have c: "Keychain_getGenericPassword ?w3 = Inr None"
    by (simp add: Keychain_getGenericPassword_def)
  show ?thesis
    using a b c
      C3_prefill_on_mount [of ?w1 "lit ''bob''" "lit ''pw''" initial_login_state]
      C3_prefill_on_mount [of ?w2 "lit ''bob''" "lit ''pw''" initial_login_state]
      C3_prefill_on_mount [of ?w3 "lit ''bob''" "lit ''pw''" initial_login_state]
    by (simp add: initial_login_state_def)
qed

lemma handleLogin_nonempty:
  assumes "truthy (lg_username st)" "truthy (lg_password st)"
  shows "handleLogin pr st w =
    (let k1 = (if lg_rememberMe st then KeychainSet (lg_username st) (lg_password st)
               else KeychainReset);
         k2 = StorageSet (lit ''rememberMe'') (if lg_rememberMe st then lit ''true'' else lit ''false'');
         failed = [Alert (lit ''Error'') (lit ''Login failed. Please try again.''),
                   ConsoleError (lit ''Login error:'')];
         w1 = w\<lparr>keychain := (if lg_rememberMe st then Some (lg_username st, lg_password st)
                             else None)\<rparr>
     in case rejects w k1 of
          Some x \<Rightarrow> ([k1] @ failed, w)
        | None \<Rightarrow>
            (case rejects w k2 of
               Some x \<Rightarrow> ([k1, k2] @ failed, w1)
             | None \<Rightarrow>
                 ([k1, k2] @ (if lg_navigation pr then [NavReplace Home]
                              else if lg_onLoginSuccess pr then [OnLoginSuccess] else []),
                  w1\<lparr>asyncStorage := (asyncStorage w)
                        (lit ''rememberMe'' \<mapsto> (if lg_rememberMe st then lit ''true'' else lit ''false''))\<rparr>)))"
  using assms
  by (simp add: handleLogin_def handleLogin_try_nonempty Let_def split: option.splits)

text \<open>
  C4, as amended. \<open>handleLogin\<close> shows \<open>Please fill in all fields\<close> exactly when the
  username or the password is empty, and then does nothing else: no navigation, no
  keychain or AsyncStorage call, the device unchanged. For non-empty credentials the
  placeholder check accepts (\<open>Invalid credentials\<close> is never shown) and the keychain call
  for \<open>rememberMe\<close> is made. If it rejects, the AsyncStorage call is not made,
  \<open>Login failed. Please try again.\<close> is shown and nothing navigates. Otherwise the
  AsyncStorage call is made; if that one rejects, \<open>Login failed. Please try again.\<close> is
  shown and nothing navigates; if neither rejects, the screen then replaces the route by
  Home when it has a navigation object, else calls \<open>onLoginSuccess\<close> when it has one, else
  does nothing more.
\<close>

theorem C4_handleLogin:
  "((\<not> truthy (lg_username st) \<or> \<not> truthy (lg_password st)) \<longleftrightarrow>
      Alert (lit ''Error'') (lit ''Please fill in all fields'') \<in> set (fst (handleLogin pr st w)))
   \<and> (\<not> truthy (lg_username st) \<or> \<not> truthy (lg_password st) \<longrightarrow>
        handleLogin pr st w = ([Alert (lit ''Error'') (lit ''Please fill in all fields'')], w))
   \<and> (truthy (lg_username st) \<and> truthy (lg_password st) \<longrightarrow>
        Alert (lit ''Error'') (lit ''Invalid credentials'') \<notin> set (fst (handleLogin pr st w))
        \<and> (let k1 = (if lg_rememberMe st then KeychainSet (lg_username st) (lg_password st)
                      else KeychainReset);
                k2 = StorageSet (lit ''rememberMe'')
                       (if lg_rememberMe st then lit ''true'' else lit ''false'');
                failed = [Alert (lit ''Error'') (lit ''Login failed. Please try again.''),
                          ConsoleError (lit ''Login error:'')]
            in (rejects w k1 \<noteq> None \<longrightarrow> fst (handleLogin pr st w) = [k1] @ failed)
             \<and> (rejects w k1 = None \<and> rejects w k2 \<noteq> None \<longrightarrow>
                  fst (handleLogin pr st w) = [k1, k2] @ failed)
             \<and> (rejects w k1 = None \<and> rejects w k2 = None \<longrightarrow>
                  fst (handleLogin pr st w) =
                    [k1, k2] @ (if lg_navigation pr then [NavReplace Home]
                                else if lg_onLoginSuccess pr then [OnLoginSuccess] else []))
             \<and> (rejects w k1 \<noteq> None \<or> rejects w k2 \<noteq> None \<longrightarrow>
                  Alert (lit ''Error'') (lit ''Login failed. Please try again.'')
                    \<in> set (fst (handleLogin pr st w))
                  \<and> \<not> list_ex is_navigation (fst (handleLogin pr st w)))))"
proof (cases "truthy (lg_username st) \<and> truthy (lg_password st)")
  case False
  then show ?thesis by (auto simp: handleLogin_def)
next
  case True
  then have t: "truthy (lg_username st)" "truthy (lg_password st)" by simp_all
  show ?thesis
    unfolding handleLogin_nonempty [OF t]
    using t by (auto simp: Let_def split: option.splits)
qed

theorem C4_handleLogin_witness:
  "handleLogin \<lparr>lg_navigation = True, lg_onLoginSuccess = False\<rparr> initial_login_state
     \<lparr>keychain = None, asyncStorage = Map.empty, rejects = (\<lambda>e. None)\<rparr>
   = ([Alert (lit ''Error'') (lit ''Please fill in all fields'')],
      \<lparr>keychain = None, asyncStorage = Map.empty, rejects = (\<lambda>e. None)\<rparr>)
   \<and> fst (handleLogin \<lparr>lg_navigation = False, lg_onLoginSuccess = True\<rparr>
     \<lparr>lg_username = lit ''bob'', lg_password = lit ''pw'', lg_rememberMe = False,
      lg_showPassword = False\<rparr>
     \<lparr>keychain = None, asyncStorage = Map.empty, rejects = (\<lambda>e. None)\<rparr>)
   = [KeychainReset, StorageSet (lit ''rememberMe'') (lit ''false''), OnLoginSuccess]
   \<and> fst (handleLogin \<lparr>lg_navigation = True, lg_onLoginSuccess = True\<rparr>
     \<lparr>lg_username = lit ''bob'', lg_password = lit ''pw'', lg_rememberMe = True,
      lg_showPassword = False\<rparr>
     \<lparr>keychain = None, asyncStorage = Map.empty,
      rejects = (\<lambda>e. if e = KeychainSet (lit ''bob'') (lit ''pw'') then Some NonError else None)\<rparr>)
   = [KeychainSet (lit ''bob'') (lit ''pw''),
      Alert (lit ''Error'') (lit ''Login failed. Please try again.''),
      ConsoleError (lit ''Login error:'')]
   \<and> fst (handleLogin \<lparr>lg_navigation = True, lg_onLoginSuccess = True\<rparr>
     \<lparr>lg_username = lit ''bob'', lg_password = lit ''pw'', lg_rememberMe = False,
      lg_showPassword = False\<rparr>
     \<lparr>keychain = None, asyncStorage = Map.empty,
      rejects = (\<lambda>e. if e = StorageSet (lit ''rememberMe'') (lit ''false'')
                      then Some NonError else None)\<rparr>)
   = [KeychainReset, StorageSet (lit ''rememberMe'') (lit ''false''),
      Alert (lit ''Error'') (lit ''Login failed. Please try again.''),
      ConsoleError (lit ''Login error:'')]"
proof -
  let ?w = "\<lparr>keychain = None, asyncStorage = Map.empty, rejects = (\<lambda>e. None)\<rparr>"
  let ?w1 = "\<lparr>keychain = None, asyncStorage = Map.empty,
      rejects = (\<lambda>e. if e = KeychainSet (lit ''bob'') (lit ''pw'') then Some NonError else None)\<rparr>"
  let ?w2 = "\<lparr>keychain = None, asyncStorage = Map.empty,
      rejects = (\<lambda>e. if e = StorageSet (lit ''rememberMe'') (lit ''false'')
                      then Some NonError else None)\<rparr>"
  let ?st = "\<lparr>lg_username = lit ''bob'', lg_password = lit ''pw'', lg_rememberMe = False,
      lg_showPassword = False\<rparr>"
  let ?st1 = "\<lparr>lg_username = lit ''bob'', lg_password = lit ''pw'', lg_rememberMe = True,
      lg_showPassword = False\<rparr>"
  have a: "\<not> truthy (lg_username initial_login_state)"
    by (simp add: initial_login_state_def truthy_def)
  have b: "truthy (lg_username ?st) \<and> truthy (lg_password ?st)"
    "truthy (lg_username ?st1) \<and> truthy (lg_password ?st1)" by simp_all
  have r1: "fst (handleLogin \<lparr>lg_navigation = False, lg_onLoginSuccess = True\<rparr> ?st ?w)
      = [KeychainReset, StorageSet (lit ''rememberMe'') (lit ''false''), OnLoginSuccess]"
    using b C4_handleLogin [of ?st "\<lparr>lg_navigation = False, lg_onLoginSuccess = True\<rparr>" ?w]
    by (simp add: Let_def)
  have r2: "fst (handleLogin \<lparr>lg_navigation = True, lg_onLoginSuccess = True\<rparr> ?st1 ?w1)
      = [KeychainSet (lit ''bob'') (lit ''pw''),
         Alert (lit ''Error'') (lit ''Login failed. Please try again.''),
         ConsoleError (lit ''Login error:'')]"
    using b C4_handleLogin [of ?st1 "\<lparr>lg_navigation = True, lg_onLoginSuccess = True\<rparr>" ?w1]
    by (simp add: Let_def)
  have r3: "fst (handleLogin \<lparr>lg_navigation = True, lg_onLoginSuccess = True\<rparr> ?st ?w2)
      = [KeychainReset, StorageSet (lit ''rememberMe'') (lit ''false''),
         Alert (lit ''Error'') (lit ''Login failed. Please try again.''),
         ConsoleError (lit ''Login error:'')]"
    using b C4_handleLogin [of ?st "\<lparr>lg_navigation = True, lg_onLoginSuccess = True\<rparr>" ?w2]
    by (simp add: Let_def)
  have r0: "handleLogin \<lparr>lg_navigation = True, lg_onLoginSuccess = False\<rparr> initial_login_state ?w
      = ([Alert (lit ''Error'') (lit ''Please fill in all fields'')], ?w)"
    using a
      C4_handleLogin [of initial_login_state "\<lparr>lg_navigation = True, lg_onLoginSuccess = False\<rparr>" ?w]
    by simp
  from r0 r1 r2 r3 show ?thesis by simp
qed

text \<open>
  C4 as stated fails for non-empty credentials: when the keychain call rejects, the login
  ends with \<open>Login failed. Please try again.\<close> and no navigation; and a screen given
  neither a navigation object nor \<open>onLoginSuccess\<close> persists and then does nothing.
\<close>

theorem C4_counterexample:
  "fst (handleLogin \<lparr>lg_navigation = True, lg_onLoginSuccess = False\<rparr>
     \<lparr>lg_username = lit ''bob'', lg_password = lit ''pw'', lg_rememberMe = False,
      lg_showPassword = False\<rparr>
     \<lparr>keychain = None, asyncStorage = Map.empty,
      rejects = (\<lambda>e. if e = KeychainReset then Some NonError else None)\<rparr>)
   = [KeychainReset, Alert (lit ''Error'') (lit ''Login failed. Please try again.''),
      ConsoleError (lit ''Login error:'')]
   \<and> fst (handleLogin \<lparr>lg_navigation = False, lg_onLoginSuccess = False\<rparr>
     \<lparr>lg_username = lit ''bob'', lg_password = lit ''pw'', lg_rememberMe = False,
      lg_showPassword = False\<rparr>
     \<lparr>keychain = None, asyncStorage = Map.empty, rejects = (\<lambda>e. None)\<rparr>)
   = [KeychainReset, StorageSet (lit ''rememberMe'') (lit ''false'')]"
  by (simp add: handleLogin_def handleLogin_try_def and_then_def
      Keychain_resetGenericPassword_def AsyncStorage_setItem_def)

section \<open>Registration\<close>

text \<open>
  C5. \<open>handleRegister\<close> returns early, with one alert and the state untouched, exactly when a
  field is empty, or the terms are not agreed to, or the errors record has a key; the
  alert is that of the first of these three checks that fails, in this order. Otherwise
  it sets \<open>isLoading\<close> and waits; the delay over, it logs, shows the success alert and
  clears \<open>isLoading\<close>; the \<open>Registration failed\<close> alert is never shown.
\<close>

theorem C5_handleRegister:
  "(let fd = rg_formData st;
        c1 = (\<not> truthy (fd_name fd) \<or> \<not> truthy (fd_email fd) \<or> \<not> truthy (fd_password fd)
              \<or> \<not> truthy (fd_confirmPassword fd));
        c2 = (\<not> rg_agreeToTerms st);
        c3 = (Object_keys_length (rg_errors st) > 0)
    in (c1 \<longrightarrow> handleRegister st
          = ([Alert (lit ''Error'') (lit ''Please fill in all fields'')], st))
     \<and> (\<not> c1 \<and> c2 \<longrightarrow> handleRegister st
          = ([Alert (lit ''Error'') (lit ''Please agree to the Terms & Conditions'')], st))
     \<and> (\<not> c1 \<and> \<not> c2 \<and> c3 \<longrightarrow> handleRegister st
          = ([Alert (lit ''Error'') (lit ''Please fix the validation errors before continuing'')],
             st))
     \<and> ((c1 \<or> c2 \<or> c3) \<longleftrightarrow> \<not> snd (snd (handleRegister_begin st)))
     \<and> (\<not> c1 \<and> \<not> c2 \<and> \<not> c3 \<longrightarrow>
          handleRegister_begin st = ([], st\<lparr>rg_isLoading := True\<rparr>, True)
          \<and> handleRegister st
             = ([ConsoleLog (lit ''Registration data:''),
                 Alert (lit ''Success'') (lit ''Account created successfully!'')],
                st\<lparr>rg_isLoading := False\<rparr>)))
   \<and> Alert (lit ''Error'') (lit ''Registration failed. Please try again.'')
        \<notin> set (fst (handleRegister st))
   \<and> (Object_keys_length (rg_errors st) > 0 \<longleftrightarrow>
        err_name (rg_errors st) \<noteq> None \<or> err_email (rg_errors st) \<noteq> None
        \<or> err_password (rg_errors st) \<noteq> None \<or> err_confirmPassword (rg_errors st) \<noteq> None)"
  by (auto simp: handleRegister_def handleRegister_begin_def handleRegister_resume_def
      timer_promise_def Let_def Object_keys_length_def)

theorem C5_handleRegister_witness:
  "handleRegister initial_register_state
     = ([Alert (lit ''Error'') (lit ''Please fill in all fields'')], initial_register_state)
   \<and> handleRegister
       (initial_register_state\<lparr>rg_formData := \<lparr>fd_name = lit ''Al'', fd_email = lit ''a@b.c'',
          fd_password = lit ''Abcdefg1'', fd_confirmPassword = lit ''Abcdefg1''\<rparr>\<rparr>)
     = ([Alert (lit ''Error'') (lit ''Please agree to the Terms & Conditions'')],
        initial_register_state\<lparr>rg_formData := \<lparr>fd_name = lit ''Al'', fd_email = lit ''a@b.c'',
          fd_password = lit ''Abcdefg1'', fd_confirmPassword = lit ''Abcdefg1''\<rparr>\<rparr>)
   \<and> handleRegister
       (initial_register_state\<lparr>rg_formData := \<lparr>fd_name = lit ''Al'', fd_email = lit ''a@b.c'',
          fd_password = lit ''abc'', fd_confirmPassword = lit ''abc''\<rparr>, rg_agreeToTerms := True,
          rg_errors := \<lparr>err_name = None, err_email = None,
            err_password = Some (lit ''Password must be at least 8 characters long''),
            err_confirmPassword = None\<rparr>\<rparr>)
     = ([Alert (lit ''Error'') (lit ''Please fix the validation errors before continuing'')],
        initial_register_state\<lparr>rg_formData := \<lparr>fd_name = lit ''Al'', fd_email = lit ''a@b.c'',
          fd_password = lit ''abc'', fd_confirmPassword = lit ''abc''\<rparr>, rg_agreeToTerms := True,
          rg_errors := \<lparr>err_name = None, err_email = None,
            err_password = Some (lit ''Password must be at least 8 characters long''),
            err_confirmPassword = None\<rparr>\<rparr>)
   \<and> fst (handleRegister
       (initial_register_state\<lparr>rg_formData := \<lparr>fd_name = lit ''Al'', fd_email = lit ''a@b.c'',
          fd_password = lit ''Abcdefg1'', fd_confirmPassword = lit ''Abcdefg1''\<rparr>,
          rg_agreeToTerms := True\<rparr>))
     = [ConsoleLog (lit ''Registration data:''),
        Alert (lit ''Success'') (lit ''Account created successfully!'')]"
proof -
  let ?fd = "\<lparr>fd_name = lit ''Al'', fd_email = lit ''a@b.c'',
          fd_password = lit ''Abcdefg1'', fd_confirmPassword = lit ''Abcdefg1''\<rparr>"
  let ?s2 = "initial_register_state\<lparr>rg_formData := ?fd\<rparr>"
  let ?s3 = "initial_register_state\<lparr>rg_formData := \<lparr>fd_name = lit ''Al'', fd_email = lit ''a@b.c'',
          fd_password = lit ''abc'', fd_confirmPassword = lit ''abc''\<rparr>, rg_agreeToTerms := True,
          rg_errors := \<lparr>err_name = None, err_email = None,
            err_password = Some (lit ''Password must be at least 8 characters long''),
            err_confirmPassword = None\<rparr>\<rparr>"
  let ?s4 = "initial_register_state\<lparr>rg_formData := ?fd, rg_agreeToTerms := True\<rparr>"
  have c1: "\<not> truthy (fd_name (rg_formData initial_register_state))"
    by (simp add: initial_register_state_def truthy_def)
  have c2: "truthy (fd_name (rg_formData ?s2)) \<and> truthy (fd_email (rg_formData ?s2))
      \<and> truthy (fd_password (rg_formData ?s2)) \<and> truthy (fd_confirmPassword (rg_formData ?s2))
      \<and> \<not> rg_agreeToTerms ?s2"
    by (simp add: initial_register_state_def)
  have c3: "truthy (fd_name (rg_formData ?s3)) \<and> truthy (fd_email (rg_formData ?s3))
      \<and> truthy (fd_password (rg_formData ?s3)) \<and> truthy (fd_confirmPassword (rg_formData ?s3))
      \<and> rg_agreeToTerms ?s3 \<and> Object_keys_length (rg_errors ?s3) > 0"
    by (simp add: initial_register_state_def Object_keys_length_def)
  have c4: "truthy (fd_name (rg_formData ?s4)) \<and> truthy (fd_email (rg_formData ?s4))
      \<and> truthy (fd_password (rg_formData ?s4)) \<and> truthy (fd_confirmPassword (rg_formData ?s4))
      \<and> rg_agreeToTerms ?s4 \<and> \<not> Object_keys_length (rg_errors ?s4) > 0"
    by (simp add: initial_register_state_def Object_keys_length_def)
  show ?thesis
    using c1 C5_handleRegister [of initial_register_state]
      c2 C5_handleRegister [of ?s2] c3 C5_handleRegister [of ?s3] c4 C5_handleRegister [of ?s4]
    unfolding Let_def by simp
qed

section \<open>The initial route\<close>

text \<open>
  C10. While \<open>checkLoginStatus\<close> is in flight the app renders the Loading navigator; once
  it has finished, the navigator's initial route is Home exactly when the read of
  \<open>userToken\<close> returned a non-empty string, and Login in every other case: no value, the
  empty string, or a read that throws.
\<close>

theorem C10_initial_route:
  "App initial_app_state = LoadingNavigator
   \<and> App (checkLoginStatus_try w initial_app_state) = LoadingNavigator
   \<and> App (checkLoginStatus w initial_app_state)
       = AppNavigator
           (if (\<exists>t. AsyncStorage_getItem (lit ''userToken'') w = Inr (Some t) \<and> t \<noteq> [])
            then Home else Login)
   \<and> ((\<exists>x. AsyncStorage_getItem (lit ''userToken'') w = Inl x) \<longrightarrow>
        App (checkLoginStatus w initial_app_state) = AppNavigator Login)"
  by (auto simp: App_def checkLoginStatus_def checkLoginStatus_try_def timer_promise_def
      initial_app_state_def truthy_opt_def truthy_def split: sum.splits option.splits)

theorem C10_initial_route_witness:
  "App (checkLoginStatus
      \<lparr>keychain = None, asyncStorage = [lit ''userToken'' \<mapsto> lit ''abc''],
       rejects = (\<lambda>e. None)\<rparr> initial_app_state) = AppNavigator Home
   \<and> App (checkLoginStatus
      \<lparr>keychain = None, asyncStorage = [lit ''userToken'' \<mapsto> lit ''abc''],
       rejects = (\<lambda>e. Some NonError)\<rparr> initial_app_state) = AppNavigator Login
   \<and> App (checkLoginStatus
      \<lparr>keychain = None, asyncStorage = [lit ''userToken'' \<mapsto> []],
       rejects = (\<lambda>e. None)\<rparr> initial_app_state) = AppNavigator Login
   \<and> App (checkLoginStatus
      \<lparr>keychain = None, asyncStorage = Map.empty,
       rejects = (\<lambda>e. None)\<rparr> initial_app_state) = AppNavigator Login"
proof -
  let ?w1 = "\<lparr>keychain = None, asyncStorage = [lit ''userToken'' \<mapsto> lit ''abc''],
       rejects = (\<lambda>e. None)\<rparr>"
  let ?w2 = "\<lparr>keychain = None, asyncStorage = [lit ''userToken'' \<mapsto> lit ''abc''],
       rejects = (\<lambda>e. Some NonError)\<rparr>"
  let ?w3 = "\<lparr>keychain = None, asyncStorage = [lit ''userToken'' \<mapsto> []],
       rejects = (\<lambda>e. None)\<rparr>"
  let ?w4 = "\<lparr>keychain = None, asyncStorage = Map.empty, rejects = (\<lambda>e. None)\<rparr>"
  have a: "AsyncStorage_getItem (lit ''userToken'') ?w1 = Inr (Some (lit ''abc''))"
    "AsyncStorage_getItem (lit ''userToken'') ?w2 = Inl NonError"
    "AsyncStorage_getItem (lit ''userToken'') ?w3 = Inr (Some [])"
    "AsyncStorage_getItem (lit ''userToken'') ?w4 = Inr None"
    by (simp_all add: AsyncStorage_getItem_def)
  show ?thesis
    using C10_initial_route [of ?w1] C10_initial_route [of ?w2] C10_initial_route [of ?w3]
      C10_initial_route [of ?w4]
    unfolding a by simp
qed

section \<open>The forgot-password wizard\<close>

lemma handleSendOTP_valid:
  "validateEmail_fp (fp_email st) = lit [] \<Longrightarrow>
     handleSendOTP st =
       ([Animate forward, Alert (lit ''OTP Sent!'') (otp_sent_message (fp_email st))],
        st\<lparr>fp_currentStep := otp, fp_resendTimer := 60, fp_isLoading := False\<rparr>)"
  by (simp add: handleSendOTP_def handleSendOTP_begin_def handleSendOTP_resume_def
      timer_promise_def truthy_def)

lemma handleSendOTP_invalid:
  "validateEmail_fp (fp_email st) \<noteq> lit [] \<Longrightarrow>
     handleSendOTP st =
       ([], st\<lparr>fp_errors := [lit ''email'' \<mapsto> validateEmail_fp (fp_email st)]\<rparr>)"
  by (simp add: handleSendOTP_def handleSendOTP_begin_def truthy_def)

lemma handleVerifyOTP_valid:
  "validateOTP (fp_otp st) = lit [] \<Longrightarrow>
     handleVerifyOTP st =
       ([Animate forward], st\<lparr>fp_currentStep := newPassword, fp_isLoading := False\<rparr>)"
  by (simp add: handleVerifyOTP_def handleVerifyOTP_begin_def handleVerifyOTP_resume_def
      timer_promise_def truthy_def)

lemma handleVerifyOTP_invalid:
  "validateOTP (fp_otp st) \<noteq> lit [] \<Longrightarrow>
     handleVerifyOTP st = ([], st\<lparr>fp_errors := [lit ''otp'' \<mapsto> validateOTP (fp_otp st)]\<rparr>)"
  by (simp add: handleVerifyOTP_def handleVerifyOTP_begin_def truthy_def)

lemma handleResetPassword_valid:
  "validateNewPassword (fp_newPassword st) = lit [] \<Longrightarrow>
   validateConfirmPassword (fp_confirmPassword st) (fp_newPassword st) = lit [] \<Longrightarrow>
     handleResetPassword st =
       ([Animate forward], st\<lparr>fp_currentStep := success, fp_isLoading := False\<rparr>)"
  by (simp add: handleResetPassword_def handleResetPassword_begin_def
      handleResetPassword_resume_def timer_promise_def truthy_def)

lemma handleResetPassword_invalid:
  "validateNewPassword (fp_newPassword st) \<noteq> lit []
   \<or> validateConfirmPassword (fp_confirmPassword st) (fp_newPassword st) \<noteq> lit [] \<Longrightarrow>
     handleResetPassword st =
       ([], st\<lparr>fp_errors :=
              [lit ''newPassword'' \<mapsto> validateNewPassword (fp_newPassword st),
               lit ''confirmPassword'' \<mapsto>
                 validateConfirmPassword (fp_confirmPassword st) (fp_newPassword st)]\<rparr>)"
  by (auto simp: handleResetPassword_def handleResetPassword_begin_def truthy_def Let_def)

text \<open>
  C8, as amended. The awaited delay is always fulfilled, so the \<open>catch\<close> blocks of the
  three submit handlers never run: whenever the local validation passes, the handler takes
  its success path and sets the step to its fixed target (\<open>otp\<close>, \<open>newPassword\<close>,
  \<open>success\<close>), on whatever state the delay ends. Started at the step whose form offers it
  and with nothing else running during the delay, that is an advance of exactly one step.
  No run of \<open>handleVerifyOTP\<close> shows the \<open>Invalid OTP\<close> alert, no run of \<open>handleSendOTP\<close> or
  \<open>handleResetPassword\<close> shows its error alert, and none logs an error.
\<close>

theorem C8_catch_unreachable:
  "(validateEmail_fp (fp_email st) = lit [] \<longrightarrow>
      handleSendOTP st =
        ([Animate forward, Alert (lit ''OTP Sent!'') (otp_sent_message (fp_email st))],
         st\<lparr>fp_currentStep := otp, fp_resendTimer := 60, fp_isLoading := False\<rparr>))
   \<and> (validateOTP (fp_otp st) = lit [] \<longrightarrow>
      handleVerifyOTP st =
        ([Animate forward], st\<lparr>fp_currentStep := newPassword, fp_isLoading := False\<rparr>))
   \<and> (validateNewPassword (fp_newPassword st) = lit []
      \<and> validateConfirmPassword (fp_confirmPassword st) (fp_newPassword st) = lit [] \<longrightarrow>
      handleResetPassword st =
        ([Animate forward], st\<lparr>fp_currentStep := success, fp_isLoading := False\<rparr>))
   \<and> (\<forall>t m. Alert t m \<notin> set (fst (handleVerifyOTP st)))
   \<and> (\<forall>m. Alert (lit ''Error'') m \<notin> set (fst (handleSendOTP st)))
   \<and> (\<forall>t m. Alert t m \<notin> set (fst (handleResetPassword st)))
   \<and> (\<forall>m. ConsoleError m \<notin> set (fst (handleSendOTP st))
          \<and> ConsoleError m \<notin> set (fst (handleVerifyOTP st))
          \<and> ConsoleError m \<notin> set (fst (handleResetPassword st)))
   \<and> (\<forall>ms x. timer_promise ms \<noteq> Inl x)
   \<and> handleSendOTP_resume (timer_promise 2000) captured st2 =
        ([Animate forward, Alert (lit ''OTP Sent!'') (otp_sent_message captured)],
         st2\<lparr>fp_currentStep := otp, fp_resendTimer := 60, fp_isLoading := False\<rparr>)
   \<and> handleVerifyOTP_resume (timer_promise 1500) st2 =
        ([Animate forward], st2\<lparr>fp_currentStep := newPassword, fp_isLoading := False\<rparr>)
   \<and> handleResetPassword_resume (timer_promise 2000) st2 =
        ([Animate forward], st2\<lparr>fp_currentStep := success, fp_isLoading := False\<rparr>)
   \<and> (fp_currentStep st = email \<and> validateEmail_fp (fp_email st) = lit [] \<longrightarrow>
        step_index (fp_currentStep (snd (handleSendOTP st))) = step_index (fp_currentStep st) + 1)
   \<and> (fp_currentStep st = otp \<and> validateOTP (fp_otp st) = lit [] \<longrightarrow>
        step_index (fp_currentStep (snd (handleVerifyOTP st)))
          = step_index (fp_currentStep st) + 1)
   \<and> (fp_currentStep st = newPassword \<and> validateNewPassword (fp_newPassword st) = lit []
      \<and> validateConfirmPassword (fp_confirmPassword st) (fp_newPassword st) = lit [] \<longrightarrow>
        step_index (fp_currentStep (snd (handleResetPassword st)))
          = step_index (fp_currentStep st) + 1)"
proof -
  have adv: "(fp_currentStep st = email \<and> validateEmail_fp (fp_email st) = lit [] \<longrightarrow>
        step_index (fp_currentStep (snd (handleSendOTP st))) = step_index (fp_currentStep st) + 1)
      \<and> (fp_currentStep st = otp \<and> validateOTP (fp_otp st) = lit [] \<longrightarrow>
        step_index (fp_currentStep (snd (handleVerifyOTP st)))
          = step_index (fp_currentStep st) + 1)
      \<and> (fp_currentStep st = newPassword \<and> validateNewPassword (fp_newPassword st) = lit []
        \<and> validateConfirmPassword (fp_confirmPassword st) (fp_newPassword st) = lit [] \<longrightarrow>
        step_index (fp_currentStep (snd (handleResetPassword st)))
          = step_index (fp_currentStep st) + 1)"
    by (simp add: handleSendOTP_valid handleVerifyOTP_valid handleResetPassword_valid)
  have h: "handleSendOTP_resume (timer_promise 2000) captured st2 =
        ([Animate forward, Alert (lit ''OTP Sent!'') (otp_sent_message captured)],
         st2\<lparr>fp_currentStep := otp, fp_resendTimer := 60, fp_isLoading := False\<rparr>)
      \<and> handleVerifyOTP_resume (timer_promise 1500) st2 =
        ([Animate forward], st2\<lparr>fp_currentStep := newPassword, fp_isLoading := False\<rparr>)
      \<and> handleResetPassword_resume (timer_promise 2000) st2 =
        ([Animate forward], st2\<lparr>fp_currentStep := success, fp_isLoading := False\<rparr>)"
    by (simp add: handleSendOTP_resume_def handleVerifyOTP_resume_def
        handleResetPassword_resume_def timer_promise_def)
  have s: "fst (handleSendOTP st) = []
      \<or> fst (handleSendOTP st)
           = [Animate forward, Alert (lit ''OTP Sent!'') (otp_sent_message (fp_email st))]"
    using handleSendOTP_valid [of st] handleSendOTP_invalid [of st] by fastforce
  have v: "fst (handleVerifyOTP st) = [] \<or> fst (handleVerifyOTP st) = [Animate forward]"
    using handleVerifyOTP_valid [of st] handleVerifyOTP_invalid [of st] by fastforce
  have r: "fst (handleResetPassword st) = [] \<or> fst (handleResetPassword st) = [Animate forward]"
    using handleResetPassword_valid [of st] handleResetPassword_invalid [of st] by fastforce
  have a: "\<forall>m. Alert (lit ''Error'') m \<notin> set (fst (handleSendOTP st))"
    and b: "\<forall>m. ConsoleError m \<notin> set (fst (handleSendOTP st))"
    using s by auto
  have c: "\<forall>t m. Alert t m \<notin> set (fst (handleVerifyOTP st))"
    and d: "\<forall>m. ConsoleError m \<notin> set (fst (handleVerifyOTP st))"
    using v by auto
  have e: "\<forall>t m. Alert t m \<notin> set (fst (handleResetPassword st))"
    and f: "\<forall>m. ConsoleError m \<notin> set (fst (handleResetPassword st))"
    using r by auto
  have g: "\<forall>ms x. timer_promise ms \<noteq> Inl x" by (simp add: timer_promise_def)
  show ?thesis
    using a b c d e f g h adv handleSendOTP_valid [of st] handleVerifyOTP_valid [of st]
      handleResetPassword_valid [of st]
    by blast
qed

lemma lit_123456: "lit ''123456'' = [0x31, 0x32, 0x33, 0x34, 0x35, 0x36]"
  and lit_secret: "lit ''secret'' = [0x73, 0x65, 0x63, 0x72, 0x65, 0x74]"
  by (simp_all add: lit_def cu_of_char_def)

lemma validateOTP_123456: "validateOTP (lit ''123456'') = lit []"
proof -
  have "\<forall>c \<in> set (lit ''123456''). isDigit c"
    by (simp add: lit_123456 isDigit_def)
  then have "validateOTP (lit ''123456'')
      = (if lit ''123456'' = [] then lit ''OTP is required''
         else if length (lit ''123456'') \<noteq> 6 then lit ''OTP must be 6 digits'' else lit [])"
    by (rule validateOTP_digits)
  then show ?thesis by (simp add: lit_def)
qed

lemma validateEmail_fp_example: "validateEmail_fp (lit ''a@b.c'') = lit []"
  unfolding validateEmail_fp_accepts
  by (simp add: lit_a_at_b_c test_anchored_def EMAIL_REGEX_def
        OneOrMore_def notSpaceAt_def isWhiteSpace_def isLineTerminator_def AT_def DOT_def)

theorem C8_catch_unreachable_witness:
  "fp_currentStep (snd (handleSendOTP (initial_fp_state\<lparr>fp_email := lit ''a@b.c''\<rparr>))) = otp
   \<and> fp_currentStep (snd (handleVerifyOTP
        (initial_fp_state\<lparr>fp_currentStep := otp, fp_otp := lit ''123456''\<rparr>))) = newPassword
   \<and> fp_currentStep (snd (handleResetPassword
        (initial_fp_state\<lparr>fp_currentStep := newPassword, fp_newPassword := lit ''secret'',
           fp_confirmPassword := lit ''secret''\<rparr>))) = success
   \<and> fst (handleVerifyOTP
        (initial_fp_state\<lparr>fp_currentStep := otp, fp_otp := lit ''123456''\<rparr>)) = [Animate forward]"
proof -
  let ?s1 = "initial_fp_state\<lparr>fp_email := lit ''a@b.c''\<rparr>"
  let ?s2 = "initial_fp_state\<lparr>fp_currentStep := otp, fp_otp := lit ''123456''\<rparr>"
  let ?s3 = "initial_fp_state\<lparr>fp_currentStep := newPassword, fp_newPassword := lit ''secret'',
           fp_confirmPassword := lit ''secret''\<rparr>"
  have a: "fp_currentStep ?s1 = email \<and> validateEmail_fp (fp_email ?s1) = lit []"
    by (simp add: validateEmail_fp_example initial_fp_state_def)
  have b: "fp_currentStep ?s2 = otp \<and> validateOTP (fp_otp ?s2) = lit []"
    by (simp add: validateOTP_123456)
  have c: "fp_currentStep ?s3 = newPassword \<and> validateNewPassword (fp_newPassword ?s3) = lit []
      \<and> validateConfirmPassword (fp_confirmPassword ?s3) (fp_newPassword ?s3) = lit []"
    by (simp add: validateNewPassword_def validateConfirmPassword_def PASSWORD_MIN_LENGTH_def
        lit_secret truthy_def)
  show ?thesis
    using a b c C8_catch_unreachable [of ?s1] C8_catch_unreachable [of ?s2]
      C8_catch_unreachable [of ?s3]
    by simp
qed

text \<open>
  C8 as stated fails: a submission that passes validation and takes its success path can
  move the wizard backward. At step \<open>otp\<close>, start \<open>handleVerifyOTP\<close>; while it waits, go back
  to \<open>email\<close> with the header's button and submit the email from the keyboard
  (\<open>onSubmitEditing\<close> is not disabled while loading), which starts \<open>handleSendOTP\<close>; the
  first delay over, the step is \<open>newPassword\<close>; the second delay over, \<open>handleSendOTP\<close> shows
  \<open>OTP Sent!\<close> and sets the step back to \<open>otp\<close>.
\<close>

theorem C8_counterexample:
  "snd (handleVerifyOTP_begin
      (initial_fp_state\<lparr>fp_currentStep := otp, fp_email := lit ''a@b.c'',
         fp_otp := lit ''123456'', fp_resendTimer := 58\<rparr>))
   \<and> snd (handleSendOTP_begin
        (snd (handleBackStep \<lparr>fp_navigation = True\<rparr>
          (fst (handleVerifyOTP_begin
            (initial_fp_state\<lparr>fp_currentStep := otp, fp_email := lit ''a@b.c'',
               fp_otp := lit ''123456'', fp_resendTimer := 58\<rparr>)))))) = Some (lit ''a@b.c'')
   \<and> fp_currentStep (snd (handleVerifyOTP_resume (timer_promise 1500)
        (fst (handleSendOTP_begin
          (snd (handleBackStep \<lparr>fp_navigation = True\<rparr>
            (fst (handleVerifyOTP_begin
              (initial_fp_state\<lparr>fp_currentStep := otp, fp_email := lit ''a@b.c'',
                 fp_otp := lit ''123456'', fp_resendTimer := 58\<rparr>)))))))))
       = newPassword
   \<and> fp_currentStep (snd (handleSendOTP_resume (timer_promise 2000) (lit ''a@b.c'')
        (snd (handleVerifyOTP_resume (timer_promise 1500)
          (fst (handleSendOTP_begin
            (snd (handleBackStep \<lparr>fp_navigation = True\<rparr>
              (fst (handleVerifyOTP_begin
                (initial_fp_state\<lparr>fp_currentStep := otp, fp_email := lit ''a@b.c'',
                   fp_otp := lit ''123456'', fp_resendTimer := 58\<rparr>)))))))))))
       = otp
   \<and> fst (handleSendOTP_resume (timer_promise 2000) (lit ''a@b.c'')
        (snd (handleVerifyOTP_resume (timer_promise 1500)
          (fst (handleSendOTP_begin
            (snd (handleBackStep \<lparr>fp_navigation = True\<rparr>
              (fst (handleVerifyOTP_begin
                (initial_fp_state\<lparr>fp_currentStep := otp, fp_email := lit ''a@b.c'',
                   fp_otp := lit ''123456'', fp_resendTimer := 58\<rparr>))))))))))
       = [Animate forward, Alert (lit ''OTP Sent!'') (otp_sent_message (lit ''a@b.c''))]
   \<and> step_index otp < step_index newPassword"
  by (simp add: handleVerifyOTP_begin_def validateOTP_123456 handleBackStep_def
      handleSendOTP_begin_def validateEmail_fp_example handleVerifyOTP_resume_def
      handleSendOTP_resume_def timer_promise_def initial_fp_state_def)

lemma handleSendOTP_step:
  "fp_currentStep (snd (handleSendOTP st))
     = (if validateEmail_fp (fp_email st) = lit [] then otp else fp_currentStep st)"
  using handleSendOTP_valid [of st] handleSendOTP_invalid [of st] by auto

lemma handleVerifyOTP_step:
  "fp_currentStep (snd (handleVerifyOTP st))
     = (if validateOTP (fp_otp st) = lit [] then newPassword else fp_currentStep st)"
  using handleVerifyOTP_valid [of st] handleVerifyOTP_invalid [of st] by auto

lemma handleResetPassword_step:
  "fp_currentStep (snd (handleResetPassword st))
     = (if validateNewPassword (fp_newPassword st) = lit []
           \<and> validateConfirmPassword (fp_confirmPassword st) (fp_newPassword st) = lit []
        then success else fp_currentStep st)"
  using handleResetPassword_valid [of st] handleResetPassword_invalid [of st] by auto

lemma handleResendOTP_step: "fp_currentStep (snd (handleResendOTP st)) = fp_currentStep st"
  by (simp add: handleResendOTP_def timer_promise_def)

text \<open>
  C1, as amended. The step starts at \<open>email\<close>. Each forward handler is offered by the form
  of one step only (\<open>handleSendOTP\<close> at \<open>email\<close>, \<open>handleVerifyOTP\<close> at \<open>otp\<close>,
  \<open>handleResetPassword\<close> at \<open>newPassword\<close>); run to its end with nothing else in between,
  an offered forward handler moves exactly one step forward when its validation passes
  and leaves the step alone when it fails. What runs after a handler's delay sets the
  step to that handler's fixed target, whatever the step is by then. \<open>handleBackStep\<close>
  moves \<open>otp\<close> to \<open>email\<close> and \<open>newPassword\<close> to \<open>otp\<close>; at \<open>success\<close> and at \<open>email\<close> it keeps
  the step and, if the screen has a navigation object, navigates to Login or goes back.
  The step is always one of the four values.
\<close>

theorem C1_wizard_steps:
  "fp_currentStep initial_fp_state = email
   \<and> (SendOTP \<in> set (offered st) \<longleftrightarrow> fp_currentStep st = email)
   \<and> (VerifyOTP \<in> set (offered st) \<longleftrightarrow> fp_currentStep st = otp)
   \<and> (ResetPassword \<in> set (offered st) \<longleftrightarrow> fp_currentStep st = newPassword)
   \<and> BackStep \<in> set (offered st)
   \<and> (a \<in> set (offered st) \<and> a \<in> {SendOTP, VerifyOTP, ResetPassword} \<longrightarrow>
        (let passes = (case fp_currentStep st of
                         email \<Rightarrow> validateEmail_fp (fp_email st) = lit []
                       | otp \<Rightarrow> validateOTP (fp_otp st) = lit []
                       | newPassword \<Rightarrow>
                           validateNewPassword (fp_newPassword st) = lit []
                           \<and> validateConfirmPassword (fp_confirmPassword st) (fp_newPassword st)
                               = lit []
                       | success \<Rightarrow> False)
         in if passes then
              step_index (fp_currentStep (snd (perform pr a st)))
                = step_index (fp_currentStep st) + 1
            else fp_currentStep (snd (perform pr a st)) = fp_currentStep st))
   \<and> (a \<in> {ResendOTP, BackToLogin} \<longrightarrow>
        fp_currentStep (snd (perform pr a st)) = fp_currentStep st)
   \<and> fp_currentStep (snd (handleSendOTP_resume (timer_promise 2000) e st)) = otp
   \<and> fp_currentStep (snd (handleVerifyOTP_resume (timer_promise 1500) st)) = newPassword
   \<and> fp_currentStep (snd (handleResetPassword_resume (timer_promise 2000) st)) = success
   \<and> fp_currentStep (fst (handleSendOTP_begin st)) = fp_currentStep st
   \<and> fp_currentStep (fst (handleVerifyOTP_begin st)) = fp_currentStep st
   \<and> fp_currentStep (fst (handleResetPassword_begin st)) = fp_currentStep st
   \<and> fp_currentStep (snd (perform pr BackStep st))
        = (case fp_currentStep st of
             otp \<Rightarrow> email | newPassword \<Rightarrow> otp | success \<Rightarrow> success | email \<Rightarrow> email)
   \<and> (fp_navigation pr \<and> fp_currentStep st = success \<longrightarrow>
        fst (perform pr BackStep st) = [Animate backward, NavNavigate Login])
   \<and> (fp_navigation pr \<and> fp_currentStep st = email \<longrightarrow>
        fst (perform pr BackStep st) = [Animate backward, NavGoBack])
   \<and> fp_currentStep st \<in> {email, otp, newPassword, success}"
proof -
  have off: "(SendOTP \<in> set (offered st) \<longleftrightarrow> fp_currentStep st = email)
      \<and> (VerifyOTP \<in> set (offered st) \<longleftrightarrow> fp_currentStep st = otp)
      \<and> (ResetPassword \<in> set (offered st) \<longleftrightarrow> fp_currentStep st = newPassword)
      \<and> BackStep \<in> set (offered st)"
    by (cases "fp_currentStep st") (simp_all add: offered_def renderStepContent_def)
  have fwd: "a \<in> set (offered st) \<and> a \<in> {SendOTP, VerifyOTP, ResetPassword} \<longrightarrow>
        (let passes = (case fp_currentStep st of
                         email \<Rightarrow> validateEmail_fp (fp_email st) = lit []
                       | otp \<Rightarrow> validateOTP (fp_otp st) = lit []
                       | newPassword \<Rightarrow>
                           validateNewPassword (fp_newPassword st) = lit []
                           \<and> validateConfirmPassword (fp_confirmPassword st) (fp_newPassword st)
                               = lit []
                       | success \<Rightarrow> False)
         in if passes then
              step_index (fp_currentStep (snd (perform pr a st)))
                = step_index (fp_currentStep st) + 1
            else fp_currentStep (snd (perform pr a st)) = fp_currentStep st)"
    by (cases "fp_currentStep st")
      (auto simp: offered_def renderStepContent_def perform_def handleSendOTP_step
        handleVerifyOTP_step handleResetPassword_step)
  have other: "a \<in> {ResendOTP, BackToLogin} \<longrightarrow>
        fp_currentStep (snd (perform pr a st)) = fp_currentStep st"
    by (auto simp: perform_def handleResendOTP_step)
  have res: "fp_currentStep (snd (handleSendOTP_resume (timer_promise 2000) e st)) = otp
      \<and> fp_currentStep (snd (handleVerifyOTP_resume (timer_promise 1500) st)) = newPassword
      \<and> fp_currentStep (snd (handleResetPassword_resume (timer_promise 2000) st)) = success"
    by (simp add: handleSendOTP_resume_def handleVerifyOTP_resume_def
        handleResetPassword_resume_def timer_promise_def)
  have beg: "fp_currentStep (fst (handleSendOTP_begin st)) = fp_currentStep st
      \<and> fp_currentStep (fst (handleVerifyOTP_begin st)) = fp_currentStep st
      \<and> fp_currentStep (fst (handleResetPassword_begin st)) = fp_currentStep st"
    by (simp add: handleSendOTP_begin_def handleVerifyOTP_begin_def
        handleResetPassword_begin_def Let_def)
  have bk: "fp_currentStep (snd (perform pr BackStep st))
        = (case fp_currentStep st of
             otp \<Rightarrow> email | newPassword \<Rightarrow> otp | success \<Rightarrow> success | email \<Rightarrow> email)
      \<and> (fp_navigation pr \<and> fp_currentStep st = success \<longrightarrow>
        fst (perform pr BackStep st) = [Animate backward, NavNavigate Login])
      \<and> (fp_navigation pr \<and> fp_currentStep st = email \<longrightarrow>
        fst (perform pr BackStep st) = [Animate backward, NavGoBack])"
    by (cases "fp_currentStep st")
      (simp_all add: perform_def handleBackStep_def handleBackToLogin_def)
  have init: "fp_currentStep initial_fp_state = email"
    by (simp add: initial_fp_state_def)
  have four: "fp_currentStep st \<in> {email, otp, newPassword, success}"
    by (cases "fp_currentStep st") simp_all
  from init off fwd other res beg bk four show ?thesis by blast
qed


theorem C1_wizard_steps_witness:
  "fp_currentStep (snd (perform \<lparr>fp_navigation = True\<rparr> SendOTP
       (initial_fp_state\<lparr>fp_email := lit ''a@b.c''\<rparr>))) = otp
   \<and> fp_currentStep (snd (perform \<lparr>fp_navigation = True\<rparr> SendOTP initial_fp_state)) = email
   \<and> fp_currentStep (snd (perform \<lparr>fp_navigation = True\<rparr> ResendOTP
       (initial_fp_state\<lparr>fp_currentStep := otp\<rparr>))) = otp
   \<and> fst (perform \<lparr>fp_navigation = True\<rparr> BackStep initial_fp_state)
       = [Animate backward, NavGoBack]
   \<and> fst (perform \<lparr>fp_navigation = True\<rparr> BackStep (initial_fp_state\<lparr>fp_currentStep := success\<rparr>))
       = [Animate backward, NavNavigate Login]"
proof -
  let ?pr = "\<lparr>fp_navigation = True\<rparr>"
  let ?s1 = "initial_fp_state\<lparr>fp_email := lit ''a@b.c''\<rparr>"
  let ?s2 = "initial_fp_state\<lparr>fp_currentStep := otp\<rparr>"
  let ?s3 = "initial_fp_state\<lparr>fp_currentStep := success\<rparr>"
  have o1: "SendOTP \<in> set (offered ?s1) \<and> SendOTP \<in> {SendOTP, VerifyOTP, ResetPassword}
      \<and> fp_currentStep ?s1 = email \<and> validateEmail_fp (fp_email ?s1) = lit []"
    by (simp add: offered_def renderStepContent_def initial_fp_state_def validateEmail_fp_example)
  have o2: "SendOTP \<in> set (offered initial_fp_state)
      \<and> SendOTP \<in> {SendOTP, VerifyOTP, ResetPassword}
      \<and> fp_currentStep initial_fp_state = email
      \<and> validateEmail_fp (fp_email initial_fp_state) \<noteq> lit []"
    by (simp add: offered_def renderStepContent_def initial_fp_state_def validateEmail_fp_def
        trim_def truthy_def)
  have o3: "ResendOTP \<in> {ResendOTP, BackToLogin} \<and> fp_currentStep ?s2 = otp"
    by simp
  have o4: "fp_navigation ?pr \<and> fp_currentStep initial_fp_state = email
      \<and> fp_currentStep ?s3 = success"
    by (simp add: initial_fp_state_def)
  have r1: "step_index (fp_currentStep (snd (perform ?pr SendOTP ?s1))) = 1"
    using o1 C1_wizard_steps [where st = ?s1 and a = SendOTP and pr = ?pr] by simp
  have r2: "fp_currentStep (snd (perform ?pr SendOTP initial_fp_state)) = email"
    using o2 C1_wizard_steps [where st = initial_fp_state and a = SendOTP and pr = ?pr] by simp
  have r3: "fp_currentStep (snd (perform ?pr ResendOTP ?s2)) = otp"
    using o3 C1_wizard_steps [where st = ?s2 and a = ResendOTP and pr = ?pr] by simp
  have r4: "fst (perform ?pr BackStep initial_fp_state) = [Animate backward, NavGoBack]"
    using o4 C1_wizard_steps [where st = initial_fp_state and a = BackStep and pr = ?pr] by simp
  have r5: "fst (perform ?pr BackStep ?s3) = [Animate backward, NavNavigate Login]"
    using o4 C1_wizard_steps [where st = ?s3 and a = BackStep and pr = ?pr] by simp
  from r1 have "fp_currentStep (snd (perform ?pr SendOTP ?s1)) = otp"
    by (cases "fp_currentStep (snd (perform ?pr SendOTP ?s1))") simp_all
  with r2 r3 r4 r5 show ?thesis by simp
qed

text \<open>
  C1 as stated fails. At step \<open>otp\<close> with a six-digit code, start \<open>handleVerifyOTP\<close>; while
  it waits, the header's back button (never disabled) runs \<open>handleBackStep\<close> and the step
  is \<open>email\<close>; the delay over, the rest of \<open>handleVerifyOTP\<close> sets \<open>newPassword\<close>: the step
  goes from \<open>email\<close> to \<open>newPassword\<close>, two steps at once. And on a screen without a
  navigation object, \<open>handleBackStep\<close> at \<open>email\<close> only animates: it does not leave the
  wizard.
\<close>

theorem C1_counterexample:
  "snd (handleVerifyOTP_begin
      (initial_fp_state\<lparr>fp_currentStep := otp, fp_email := lit ''a@b.c'',
         fp_otp := lit ''123456'', fp_resendTimer := 58\<rparr>))
   \<and> fp_currentStep (snd (handleBackStep \<lparr>fp_navigation = True\<rparr>
        (fst (handleVerifyOTP_begin
          (initial_fp_state\<lparr>fp_currentStep := otp, fp_email := lit ''a@b.c'',
             fp_otp := lit ''123456'', fp_resendTimer := 58\<rparr>))))) = email
   \<and> fp_currentStep (snd (handleVerifyOTP_resume (timer_promise 1500)
        (snd (handleBackStep \<lparr>fp_navigation = True\<rparr>
          (fst (handleVerifyOTP_begin
            (initial_fp_state\<lparr>fp_currentStep := otp, fp_email := lit ''a@b.c'',
               fp_otp := lit ''123456'', fp_resendTimer := 58\<rparr>))))))) = newPassword
   \<and> step_index newPassword = step_index email + 2
   \<and> handleBackStep \<lparr>fp_navigation = False\<rparr> initial_fp_state
       = ([Animate backward], initial_fp_state)"
  by (simp add: handleVerifyOTP_begin_def validateOTP_123456 handleBackStep_def
      handleVerifyOTP_resume_def timer_promise_def initial_fp_state_def)

end
